theory Spec2Isabelle
  imports Main
begin

section \<open>Python strings\<close>

text \<open>
  A Python \<^verbatim>\<open>str\<close> is modelled as a \<^typ>\<open>string\<close>, a list of 8-bit characters.
  \<^verbatim>\<open>str.lower()\<close> is modelled on the ASCII letters; every other character is left
  as it is.
\<close>

definition lower_char :: "char \<Rightarrow> char" where
  "lower_char c =
     (let n = (of_char c :: nat) in if 65 \<le> n \<and> n \<le> 90 then char_of (n + 32) else c)"

definition lower :: "string \<Rightarrow> string" where
  "lower s = map lower_char s"

text \<open>\<^verbatim>\<open>s.endswith(t)\<close> and \<^verbatim>\<open>s.startswith(t)\<close>.\<close>

definition endswith :: "string \<Rightarrow> string \<Rightarrow> bool" where
  "endswith s t = (length t \<le> length s \<and> drop (length s - length t) s = t)"

definition startswith :: "string \<Rightarrow> string \<Rightarrow> bool" where
  "startswith s t = (take (length t) s = t)"

text \<open>The single quote that the f-strings of the source put around a value.\<close>

definition quote :: string where
  "quote = [CHR 0x27]"

text \<open>\<^verbatim>\<open>sep.join(xs)\<close>.\<close>

fun join :: "string \<Rightarrow> string list \<Rightarrow> string" where
  "join sep [] = []"
| "join sep [x] = x"
| "join sep (x # y # ys) = x @ sep @ join sep (y # ys)"

text \<open>\<^verbatim>\<open>s.split('/')\<close>: the pieces between the slashes, never an empty list.\<close>

fun split_slash :: "string \<Rightarrow> string list" where
  "split_slash [] = [[]]"
| "split_slash (c # cs) =
     (if c = CHR ''/'' then [] # split_slash cs
      else (case split_slash cs of [] \<Rightarrow> [[c]] | p # ps \<Rightarrow> (c # p) # ps))"

text \<open>\<^verbatim>\<open>s.rfind(c)\<close>: the index of the last occurrence, \<open>None\<close> for Python's \<open>-1\<close>.\<close>

fun rfind :: "char \<Rightarrow> string \<Rightarrow> nat option" where
  "rfind c [] = None"
| "rfind c (x # xs) =
     (case rfind c xs of
        Some i \<Rightarrow> Some (Suc i)
      | None \<Rightarrow> if x = c then Some 0 else None)"

text \<open>\<^verbatim>\<open>str(n)\<close> for a Python integer.\<close>

definition digit_char :: "nat \<Rightarrow> char" where
  "digit_char d = char_of (48 + d)"

fun str_nat :: "nat \<Rightarrow> string" where
  "str_nat n = (if n < 10 then [digit_char n] else str_nat (n div 10) @ [digit_char (n mod 10)])"

declare str_nat.simps [simp del]

definition str_int :: "int \<Rightarrow> string" where
  "str_int i = (if i < 0 then CHR ''-'' # str_nat (nat (- i)) else str_nat (nat i))"

section \<open>os.path and pathlib (POSIX flavour)\<close>

text \<open>
  \<^verbatim>\<open>os.path.join(a, b)\<close> and \<^verbatim>\<open>os.path.basename(p)\<close> of \<^verbatim>\<open>posixpath\<close>.
\<close>

definition os_path_join :: "string \<Rightarrow> string \<Rightarrow> string" where
  "os_path_join a b =
     (if startswith b ''/'' then b
      else if a = [] \<or> endswith a ''/'' then a @ b
      else a @ ''/'' @ b)"

definition os_path_basename :: "string \<Rightarrow> string" where
  "os_path_basename p =
     (case rfind (CHR ''/'') p of None \<Rightarrow> p | Some i \<Rightarrow> drop (Suc i) p)"

text \<open>
  A \<^verbatim>\<open>pathlib.Path\<close> is its parsed form: the root (\<open>''''\<close>, \<open>''/''\<close> or \<open>''//''\<close>) and the
  components after it. \<open>Path\<close> is the constructor applied to a string, as
  \<^verbatim>\<open>PurePosixPath\<close> parses it: empty components and \<open>''.''\<close> components are dropped.
\<close>

datatype path = PurePath (root: string) (tail: "string list")

definition splitroot :: "string \<Rightarrow> string \<times> string" where
  "splitroot p =
     (if take 1 p \<noteq> ''/'' then ([], p)
      else if take 1 (drop 1 p) \<noteq> ''/'' \<or> take 1 (drop 2 p) = ''/'' then (''/'', drop 1 p)
      else (take 2 p, drop 2 p))"

definition Path :: "string \<Rightarrow> path" where
  "Path s =
     (case splitroot s of
        (r, rel) \<Rightarrow> PurePath r (filter (\<lambda>x. x \<noteq> [] \<and> x \<noteq> ''.'') (split_slash rel)))"

text \<open>\<^verbatim>\<open>str(p)\<close>: the root and the components joined by slashes, \<open>''.''\<close> for the empty path.\<close>

definition str_path :: "path \<Rightarrow> string" where
  "str_path p = (let s = root p @ join ''/'' (tail p) in if s = [] then ''.'' else s)"

text \<open>\<^verbatim>\<open>p.name\<close>, \<^verbatim>\<open>p.suffix\<close>, \<^verbatim>\<open>p.stem\<close> (the rule \<^verbatim>\<open>0 < i < len(name) - 1\<close> on the last dot).\<close>

definition name :: "path \<Rightarrow> string" where
  "name p = (if tail p = [] then [] else last (tail p))"

definition suffix :: "path \<Rightarrow> string" where
  "suffix p =
     (case rfind (CHR ''.'') (name p) of
        None \<Rightarrow> []
      | Some i \<Rightarrow> if 0 < i \<and> i + 1 < length (name p) then drop i (name p) else [])"

definition stem :: "path \<Rightarrow> string" where
  "stem p =
     (case rfind (CHR ''.'') (name p) of
        None \<Rightarrow> name p
      | Some i \<Rightarrow> if 0 < i \<and> i + 1 < length (name p) then take i (name p) else name p)"

text \<open>
  \<^verbatim>\<open>p.with_name(n)\<close> and \<^verbatim>\<open>p.with_stem(s)\<close>; \<open>None\<close> is the \<^verbatim>\<open>ValueError\<close> that
  pathlib raises for a path without a name or for an invalid new name.
\<close>

definition with_name :: "path \<Rightarrow> string \<Rightarrow> path option" where
  "with_name p n =
     (if name p = [] \<or> n = [] \<or> CHR ''/'' \<in> set n \<or> n = ''.'' then None
      else Some (PurePath (root p) (butlast (tail p) @ [n])))"

definition with_stem :: "path \<Rightarrow> string \<Rightarrow> path option" where
  "with_stem p s = with_name p (s @ suffix p)"

text \<open>\<^verbatim>\<open>formats.VIDEO_EXTS\<close>.\<close>

definition VIDEO_EXTS :: "string set" where
  "VIDEO_EXTS = {''.mp4'', ''.mov'', ''.avi'', ''.mkv'', ''.webm'', ''.mpg'', ''.mpeg''}"

section \<open>Exceptions\<close>

text \<open>
  The exception classes of \<^verbatim>\<open>errors.py\<close> that \<^verbatim>\<open>mark_video\<close> can raise, with the arguments
  the source passes. All of them are subclasses of \<^verbatim>\<open>MarkerError\<close>.
\<close>

datatype marker_error =
    InputFileNotFoundError string
  | FileError string
  | UnsupportedFileTypeError string "string set"
  | InvalidOutputPathError string string
  | VideoMarkingError string
  | InvalidMediaError string
  | FFmpegNotFoundError
  | FFmpegProcessError "string list" "string option"

text \<open>
  Exceptions of the Python library, each with its \<^verbatim>\<open>str(e)\<close>. \<open>OtherException\<close> is any
  other subclass of \<^verbatim>\<open>Exception\<close> outside the package.
\<close>

datatype builtin_exc =
    FileNotFoundError string
  | OSError string
  | ValueError string
  | ZeroDivisionError string
  | AttributeError string
  | OtherException string

fun builtin_str :: "builtin_exc \<Rightarrow> string" where
  "builtin_str (FileNotFoundError m) = m"
| "builtin_str (OSError m) = m"
| "builtin_str (ValueError m) = m"
| "builtin_str (ZeroDivisionError m) = m"
| "builtin_str (AttributeError m) = m"
| "builtin_str (OtherException m) = m"

text \<open>
  \<^verbatim>\<open>subprocess.CalledProcessError\<close> carries the return code, the command and the captured
  standard error (\<open>None\<close> when it was not captured).
\<close>

datatype py_exc =
    Marker marker_error
  | CalledProcessError int "string list" "string option"
  | Builtin builtin_exc

section \<open>The environment: file system, external processes, library calls\<close>

datatype node = File | Dir

type_synonym filesystem = "string \<Rightarrow> node option"

text \<open>
  The state a call changes: the file system (path strings as they are passed to the
  operating system, to what they name) and the commands passed to
  \<^verbatim>\<open>subprocess.run\<close> so far, in order.
\<close>

record world =
  fs :: filesystem
  invoked :: "string list list"

text \<open>
  What running a command does: the executable is not found, or the process exits with a
  return code, having written bytes to its standard error and left a file system behind.
  External processes are assumed to terminate.
\<close>

datatype proc_result = NotFound | Exited int string filesystem

text \<open>
  Modelled from the spec: the result of \<^verbatim>\<open>utils._ffprobe_param\<close>, whose module is not among
  the sources. The spec gives the probe's result as a structured description with a
  \<^verbatim>\<open>streams\<close> list, each stream with \<^verbatim>\<open>codec_type\<close>, \<^verbatim>\<open>codec_name\<close>, \<^verbatim>\<open>width\<close>, \<^verbatim>\<open>height\<close>
  (integers) and \<^verbatim>\<open>r_frame_rate\<close> (a string such as \<open>''30/1''\<close>). \<^verbatim>\<open>mark_video\<close> reads every
  key with \<^verbatim>\<open>.get\<close>, so each key may be absent.
\<close>

record stream =
  codec_type :: "string option"
  codec_name :: "string option"
  width :: "int option"
  height :: "int option"
  r_frame_rate :: "string option"

record probe =
  streams :: "stream list option"

text \<open>\<^verbatim>\<open>fractions.Fraction\<close>: numerator and denominator.\<close>

record fraction =
  numerator :: int
  denominator :: int

text \<open>
  Everything outside \<^verbatim>\<open>mark_video.py\<close> that a call depends on, as parameters.

  \<open>ffprobe_param\<close> and \<open>generate_lavfi_drawtext\<close> are \<^verbatim>\<open>utils._ffprobe_param\<close> and
  \<^verbatim>\<open>utils._generate_lavfi_drawtext\<close> (with the duration \<^verbatim>\<open>0.5\<close> that \<^verbatim>\<open>mark_video\<close>
  passes), whose module is not among the sources: the probe returns a result or raises,
  the other returns a string. \<open>gettempdir\<close> and \<open>uuid4_hex\<close> are
  \<^verbatim>\<open>tempfile.gettempdir()\<close> and \<^verbatim>\<open>uuid.uuid4().hex\<close> of the call, and \<open>run_proc cmd f\<close> is
  what the operating system does with the command \<open>cmd\<close> on the file system \<open>f\<close>.

  \<open>mkdir_parent p f\<close> is \<^verbatim>\<open>p.parent.mkdir(parents=True, exist_ok=True)\<close>: the
  \<^verbatim>\<open>str\<close> of the \<^verbatim>\<open>OSError\<close> it raises, if any, and the file system it leaves.
  \<open>remove_denied p\<close> says that \<^verbatim>\<open>os.remove(p)\<close> on an existing file fails.
  \<open>Fraction_other\<close> is \<^verbatim>\<open>Fraction(s)\<close> on the strings that \<open>simple_rational\<close> below does
  not cover, \<open>decode_utf8_ignore\<close> is \<^verbatim>\<open>bytes.decode('utf-8', 'ignore')\<close>.
\<close>

record env =
  ffprobe_param :: "string \<Rightarrow> py_exc + probe"
  generate_lavfi_drawtext :: "string \<Rightarrow> int \<times> int \<Rightarrow> string"
  gettempdir :: string
  uuid4_hex :: string
  run_proc :: "string list \<Rightarrow> filesystem \<Rightarrow> proc_result"
  mkdir_parent :: "path \<Rightarrow> filesystem \<Rightarrow> string option \<times> filesystem"
  remove_denied :: "string \<Rightarrow> bool"
  Fraction_other :: "string \<Rightarrow> builtin_exc + fraction"
  decode_utf8_ignore :: "string \<Rightarrow> string"

subsection \<open>File-system calls\<close>

definition path_exists :: "world \<Rightarrow> path \<Rightarrow> bool" where
  "path_exists w p = (fs w (str_path p) \<noteq> None)"

definition is_file :: "world \<Rightarrow> path \<Rightarrow> bool" where
  "is_file w p = (fs w (str_path p) = Some File)"

definition is_dir :: "world \<Rightarrow> path \<Rightarrow> bool" where
  "is_dir w p = (fs w (str_path p) = Some Dir)"

definition os_path_exists :: "filesystem \<Rightarrow> string \<Rightarrow> bool" where
  "os_path_exists f p = (f p \<noteq> None)"

text \<open>
  \<^verbatim>\<open>os.remove(p)\<close>: an \<^verbatim>\<open>OSError\<close> for a missing path, a directory or a denied removal,
  otherwise the path is gone.
\<close>

definition os_remove :: "env \<Rightarrow> string \<Rightarrow> filesystem \<Rightarrow> builtin_exc + filesystem" where
  "os_remove env p f =
     (case f p of
        None \<Rightarrow> Inl (FileNotFoundError (''[Errno 2] No such file or directory: '' @ quote @ p @ quote))
      | Some Dir \<Rightarrow> Inl (OSError (''[Errno 21] Is a directory: '' @ quote @ p @ quote))
      | Some File \<Rightarrow>
          if remove_denied env p
          then Inl (OSError (''[Errno 13] Permission denied: '' @ quote @ p @ quote))
          else Inr (f(p := None)))"

subsection \<open>subprocess.run\<close>

text \<open>
  \<^verbatim>\<open>subprocess.run(cmd, check=True, stdout=..., stderr=...)\<close>. A missing executable
  raises \<^verbatim>\<open>FileNotFoundError\<close>; a non-zero return code raises \<^verbatim>\<open>CalledProcessError\<close>,
  whose \<^verbatim>\<open>stderr\<close> is the captured bytes when \<^verbatim>\<open>stderr=PIPE\<close> and \<^verbatim>\<open>None\<close> otherwise.
  The command is recorded in \<open>invoked\<close> in both cases; the standard output is not
  modelled.
\<close>

datatype redirect = Inherit | PIPE | DEVNULL | STDOUT

definition subprocess_run ::
  "env \<Rightarrow> string list \<Rightarrow> redirect \<Rightarrow> redirect \<Rightarrow> world \<Rightarrow> (py_exc + unit) \<times> world" where
  "subprocess_run env cmd stdout_to stderr_to w =
     (case run_proc env cmd (fs w) of
        NotFound \<Rightarrow>
          (Inl (Builtin (FileNotFoundError
             (''[Errno 2] No such file or directory: '' @ quote
              @ (case cmd of [] \<Rightarrow> [] | c # args \<Rightarrow> c) @ quote))),
           w\<lparr>invoked := invoked w @ [cmd]\<rparr>)
      | Exited rc err f' \<Rightarrow>
          (if rc \<noteq> 0
           then Inl (CalledProcessError rc cmd (if stderr_to = PIPE then Some err else None))
           else Inr (),
           \<lparr>fs = f', invoked = invoked w @ [cmd]\<rparr>))"

section \<open>fractions.Fraction\<close>

text \<open>
  \<^verbatim>\<open>Fraction(n, d)\<close> for integers with \<open>d \<noteq> 0\<close>: the pair is divided by the greatest
  common divisor, which takes the sign of the denominator.
\<close>

definition Fraction_new :: "int \<Rightarrow> int \<Rightarrow> fraction" where
  "Fraction_new n d =
     (let g = (if d < 0 then - gcd n d else gcd n d)
      in \<lparr>numerator = n div g, denominator = d div g\<rparr>)"

definition is_digit :: "char \<Rightarrow> bool" where
  "is_digit c = (48 \<le> (of_char c :: nat) \<and> (of_char c :: nat) \<le> 57)"

definition digits_value :: "string \<Rightarrow> nat" where
  "digits_value ds = foldl (\<lambda>a c. 10 * a + (of_char c - 48)) 0 ds"

text \<open>
  The strings \<^verbatim>\<open>[sign] digits [/ digits]\<close> of ASCII digits, without white space: the
  form in which a probe reports a frame rate. The result is the sign, the numerator's
  digits and the denominator's digits, if any.
\<close>

definition simple_rational :: "string \<Rightarrow> (string \<times> string \<times> string option) option" where
  "simple_rational s =
     (let (sign, rest) =
            (case s of
               c # r \<Rightarrow> if c = CHR ''+'' \<or> c = CHR ''-'' then ([c], r) else ([], s)
             | [] \<Rightarrow> ([], s));
          num = takeWhile is_digit rest;
          after = dropWhile is_digit rest
      in if num = [] then None
         else (case after of
                 [] \<Rightarrow> Some (sign, num, None)
               | c # ds \<Rightarrow>
                   if c = CHR ''/'' \<and> ds \<noteq> [] \<and> list_all is_digit ds
                   then Some (sign, num, Some ds) else None))"

text \<open>
  \<^verbatim>\<open>Fraction(s)\<close> for a string: on a simple rational, the numerator and denominator are
  read, a zero denominator raises \<^verbatim>\<open>ZeroDivisionError\<close>, and the fraction is normalised;
  every other string is left to the library (\<open>Fraction_other\<close>), which raises
  \<^verbatim>\<open>ValueError\<close> on what it cannot parse.
\<close>

definition Fraction_str :: "env \<Rightarrow> string \<Rightarrow> builtin_exc + fraction" where
  "Fraction_str env s =
     (case simple_rational s of
        None \<Rightarrow> Fraction_other env s
      | Some (sign, num, den) \<Rightarrow>
          (let n = int (digits_value num);
               d = (case den of None \<Rightarrow> 1 | Some ds \<Rightarrow> int (digits_value ds));
               n' = (if sign = ''-'' then - n else n)
           in if d = 0 then Inl (ZeroDivisionError (''Fraction('' @ str_int n' @ '', 0)''))
              else Inr (Fraction_new n' d)))"

text \<open>\<^verbatim>\<open>str(q)\<close> for a fraction.\<close>

definition str_Fraction :: "fraction \<Rightarrow> string" where
  "str_Fraction q =
     (if denominator q = 1 then str_int (numerator q)
      else str_int (numerator q) @ ''/'' @ str_int (denominator q))"

section \<open>mark\_video\<close>

subsection \<open>Lines 46 to 72: the input and output paths\<close>

text \<open>The supported extensions as the message lists them, sorted and joined.\<close>

definition sorted_video_exts :: string where
  "sorted_video_exts = ''.avi, .mkv, .mov, .mp4, .mpeg, .mpg, .webm''"

definition mark_video_paths ::
  "env \<Rightarrow> string \<Rightarrow> string option \<Rightarrow> world \<Rightarrow> (py_exc + path) \<times> world" where
  "mark_video_paths env input_path output_path w =
     (let input_p = Path input_path in
      if \<not> path_exists w input_p then (Inl (Marker (InputFileNotFoundError input_path)), w)
      else if \<not> is_file w input_p
      then (Inl (Marker (FileError (''Input path is not a file: '' @ input_path))), w)
      else if lower (suffix input_p) \<notin> VIDEO_EXTS
      then (Inl (Marker (UnsupportedFileTypeError input_path VIDEO_EXTS)), w)
      else
        (case (case output_path of
                 None \<Rightarrow>
                   (case with_stem input_p (stem input_p @ ''_marked'') of
                      None \<Rightarrow> Inl (Builtin (ValueError ''Invalid name''))
                    | Some output_p \<Rightarrow> Inr output_p)
               | Some out \<Rightarrow>
                   (let output_p = Path out in
                    if lower (suffix output_p) \<notin> VIDEO_EXTS
                    then Inl (Marker (InvalidOutputPathError out
                           (''Output file extension must be one of '' @ sorted_video_exts)))
                    else if is_dir w output_p
                    then Inl (Marker (InvalidOutputPathError out
                           ''Output path cannot be a directory.''))
                    else Inr output_p)) of
           Inl e \<Rightarrow> (Inl e, w)
         | Inr output_p \<Rightarrow>
             (case mkdir_parent env output_p (fs w) of
                (Some msg, f') \<Rightarrow>
                  (Inl (Marker (InvalidOutputPathError (str_path output_p)
                     (''Could not create parent directory: '' @ msg))), w\<lparr>fs := f'\<rparr>)
              | (None, f') \<Rightarrow> (Inr output_p, w\<lparr>fs := f'\<rparr>))))"

subsection \<open>Lines 79 to 113: probing and validation\<close>

text \<open>\<^verbatim>\<open>probe.get("streams", [])\<close>.\<close>

definition stream_list :: "probe \<Rightarrow> stream list" where
  "stream_list pr = (case streams pr of None \<Rightarrow> [] | Some l \<Rightarrow> l)"

text \<open>\<^verbatim>\<open>next((s for s in streams if s.get("codec_type") == kind), None)\<close>.\<close>

definition first_stream :: "string \<Rightarrow> stream list \<Rightarrow> stream option" where
  "first_stream kind ss = find (\<lambda>s. codec_type s = Some kind) ss"

text \<open>Lines 93 and 94: the override when one is given, else the stream's size, 0 for a missing key.\<close>

definition resolve_resolution :: "(int \<times> int) option \<Rightarrow> stream \<Rightarrow> int \<times> int" where
  "resolve_resolution resolution video_stream =
     (case resolution of
        Some r \<Rightarrow> (fst r, snd r)
      | None \<Rightarrow>
          (case width video_stream of None \<Rightarrow> 0 | Some x \<Rightarrow> x,
           case height video_stream of None \<Rightarrow> 0 | Some x \<Rightarrow> x))"

text \<open>Lines 98 to 102: the frame rate, with the raw string as the fallback.\<close>

definition resolve_fps :: "env \<Rightarrow> stream \<Rightarrow> string" where
  "resolve_fps env video_stream =
     (let fps_str = (case r_frame_rate video_stream of None \<Rightarrow> ''30/1'' | Some s \<Rightarrow> s)
      in case Fraction_str env fps_str of Inr q \<Rightarrow> str_Fraction q | Inl e \<Rightarrow> fps_str)"

text \<open>\<^verbatim>\<open>s.get("codec_name", "").lower()\<close>.\<close>

definition codec_lower :: "stream \<Rightarrow> string" where
  "codec_lower s = lower (case codec_name s of None \<Rightarrow> [] | Some c \<Rightarrow> c)"

text \<open>The exceptions of lines 96, 106 and 113.\<close>

definition invalid_resolution_error :: "int \<Rightarrow> int \<Rightarrow> py_exc" where
  "invalid_resolution_error wd ht =
     Marker (InvalidMediaError
       (''Invalid video resolution detected: '' @ str_int wd @ ''x'' @ str_int ht @ ''.''))"

definition unsupported_video_codec_error :: "string \<Rightarrow> py_exc" where
  "unsupported_video_codec_error video_codec =
     Marker (InvalidMediaError
       (''Unsupported video codec: '' @ quote @ video_codec @ quote
        @ ''. Only h264/hevc are supported for stream copying.''))"

definition unsupported_audio_codec_error :: "string \<Rightarrow> py_exc" where
  "unsupported_audio_codec_error audio_codec =
     Marker (InvalidMediaError
       (''Unsupported audio codec: '' @ quote @ audio_codec @ quote
        @ ''. Only AAC or no audio is supported for stream copying.''))"

text \<open>
  The result of the validation is the resolved width, height, frame rate and video codec.
  Nothing here changes the world: no process is started by \<^verbatim>\<open>mark_video\<close> itself.
\<close>

definition mark_video_checks ::
  "env \<Rightarrow> string \<Rightarrow> (int \<times> int) option \<Rightarrow> py_exc + (int \<times> int \<times> string \<times> string)" where
  "mark_video_checks env input_path resolution =
     (case ffprobe_param env input_path of
        Inl e \<Rightarrow>
          (case e of
             Marker (FFmpegProcessError c t) \<Rightarrow>
               Inl (Marker (VideoMarkingError ''Failed to probe video parameters.''))
           | _ \<Rightarrow> Inl e)
      | Inr probe \<Rightarrow>
          (let ss = stream_list probe in
           if ss = [] then Inl (Marker (InvalidMediaError ''No media streams found in the input file.''))
           else
             (case first_stream ''video'' ss of
                None \<Rightarrow> Inl (Marker (InvalidMediaError ''No video stream found in the input file.''))
              | Some video_stream \<Rightarrow>
                  (let (wd, ht) = resolve_resolution resolution video_stream in
                   if wd \<le> 0 \<or> ht \<le> 0
                   then Inl (invalid_resolution_error wd ht)
                   else
                     (let fps = resolve_fps env video_stream;
                          video_codec = codec_lower video_stream
                      in if video_codec \<noteq> ''h264'' \<and> video_codec \<noteq> ''hevc''
                         then Inl (unsupported_video_codec_error video_codec)
                         else
                           (case first_stream ''audio'' ss of
                              None \<Rightarrow> Inr (wd, ht, fps, video_codec)
                            | Some audio_stream \<Rightarrow>
                                (let audio_codec = codec_lower audio_stream
                                 in if audio_codec \<noteq> [] \<and> audio_codec \<noteq> ''aac''
                                    then Inl (unsupported_audio_codec_error audio_codec)
                                    else Inr (wd, ht, fps, video_codec))))))))"

subsection \<open>Lines 116 to 165: the temporary paths and the four commands\<close>

text \<open>Lines 116 to 120: the three temporary paths, in the order of the source.\<close>

definition marker_container_path :: "env \<Rightarrow> string" where
  "marker_container_path env = os_path_join (gettempdir env) (''marker_'' @ uuid4_hex env @ ''.mp4'')"

definition marker_ts_path :: "env \<Rightarrow> string" where
  "marker_ts_path env = os_path_join (gettempdir env) (''marker_'' @ uuid4_hex env @ ''.ts'')"

definition main_ts_path :: "env \<Rightarrow> string" where
  "main_ts_path env = os_path_join (gettempdir env) (''main_'' @ uuid4_hex env @ ''.ts'')"

text \<open>Lines 122 to 124 and 142: the overlay text, the encoder and the bitstream filter.\<close>

definition overlay_of :: "string \<Rightarrow> string option \<Rightarrow> string" where
  "overlay_of input_path overlay_text =
     (case overlay_text of
        None \<Rightarrow> ''Filename: '' @ os_path_basename input_path
      | Some t \<Rightarrow> t)"

definition video_encoder_of :: "string \<Rightarrow> string" where
  "video_encoder_of video_codec = (if video_codec = ''h264'' then ''libx264'' else ''libx265'')"

definition v_bsf_of :: "string \<Rightarrow> string" where
  "v_bsf_of video_codec =
     (if video_codec = ''h264'' then ''h264_mp4toannexb'' else ''hevc_mp4toannexb'')"

text \<open>Lines 128 to 138.\<close>

definition cmd_marker :: "string \<Rightarrow> string \<Rightarrow> string \<Rightarrow> string \<Rightarrow> string list" where
  "cmd_marker lavfi_src video_encoder fps marker_container =
     [''ffmpeg'', ''-y'',
      ''-f'', ''lavfi'', ''-i'', lavfi_src,
      ''-f'', ''lavfi'', ''-i'', ''anullsrc=channel_layout=stereo:sample_rate=44100'',
      ''-shortest'',
      ''-c:v'', video_encoder,
      ''-pix_fmt'', ''yuv420p'',
      ''-r'', fps,
      ''-c:a'', ''aac'', ''-ar'', ''44100'',
      marker_container]"

text \<open>Lines 144 to 151.\<close>

definition remux_cmd :: "string \<Rightarrow> string \<Rightarrow> string \<Rightarrow> string list" where
  "remux_cmd v_bsf src dst =
     [''ffmpeg'', ''-y'',
      ''-i'', src,
      ''-c'', ''copy'',
      ''-bsf:v'', v_bsf,
      ''-f'', ''mpegts'',
      dst]"

text \<open>Lines 155 to 164.\<close>

definition final_cmd :: "path \<Rightarrow> string \<Rightarrow> string \<Rightarrow> string list" where
  "final_cmd output_p marker_ts main_ts =
     (let concat_input = ''concat:'' @ marker_ts @ ''|'' @ main_ts in
      [''ffmpeg'', ''-y'', ''-i'', concat_input, ''-c'', ''copy'']
      @ (if endswith (lower (str_path output_p)) ''.mp4'' then [''-bsf:a'', ''aac_adtstoasc''] else [])
      @ [str_path output_p])"

text \<open>Lines 143 to 152: the loop over the pairs of source and destination.\<close>

fun remux_loop :: "env \<Rightarrow> string \<Rightarrow> (string \<times> string) list \<Rightarrow> world \<Rightarrow> (py_exc + unit) \<times> world" where
  "remux_loop env v_bsf [] w = (Inr (), w)"
| "remux_loop env v_bsf ((src, dst) # rest) w =
     (case subprocess_run env (remux_cmd v_bsf src dst) DEVNULL STDOUT w of
        (Inl e, w') \<Rightarrow> (Inl e, w')
      | (Inr u, w') \<Rightarrow> remux_loop env v_bsf rest w')"

definition mark_video_run ::
  "env \<Rightarrow> string \<Rightarrow> path \<Rightarrow> string option \<Rightarrow> int \<times> int \<times> string \<times> string \<Rightarrow> world
   \<Rightarrow> (py_exc + unit) \<times> world" where
  "mark_video_run env input_path output_p overlay_text ps w =
     (case ps of (wd, ht, fps, video_codec) \<Rightarrow>
      (let marker_container = marker_container_path env;
           marker_ts = marker_ts_path env;
           main_ts = main_ts_path env;
           overlay = overlay_of input_path overlay_text;
           video_encoder = video_encoder_of video_codec;
           lavfi_src = generate_lavfi_drawtext env overlay (wd, ht)
       in case subprocess_run env (cmd_marker lavfi_src video_encoder fps marker_container)
                 DEVNULL STDOUT w of
            (Inl e, w1) \<Rightarrow> (Inl e, w1)
          | (Inr u, w1) \<Rightarrow>
              (let v_bsf = v_bsf_of video_codec
               in case remux_loop env v_bsf
                         [(marker_container, marker_ts), (input_path, main_ts)] w1 of
                    (Inl e, w2) \<Rightarrow> (Inl e, w2)
                  | (Inr u, w2) \<Rightarrow>
                      subprocess_run env (final_cmd output_p marker_ts main_ts) DEVNULL STDOUT w2)))"

subsection \<open>Lines 78 to 165: the body of the try statement\<close>

text \<open>
  The result, the values of the variables \<^verbatim>\<open>marker_container\<close>, \<^verbatim>\<open>marker_ts\<close> and
  \<^verbatim>\<open>main_ts\<close> when the body is left (\<open>None\<close> until line 118 assigns them), and the world.
\<close>

definition mark_video_try ::
  "env \<Rightarrow> string \<Rightarrow> path \<Rightarrow> (int \<times> int) option \<Rightarrow> string option \<Rightarrow> world
   \<Rightarrow> (py_exc + unit) \<times> string option list \<times> world" where
  "mark_video_try env input_path output_p resolution overlay_text w =
     (case mark_video_checks env input_path resolution of
        Inl e \<Rightarrow> (Inl e, [None, None, None], w)
      | Inr ps \<Rightarrow>
          (case mark_video_run env input_path output_p overlay_text ps w of
             (r, w') \<Rightarrow>
               (r, [Some (marker_container_path env), Some (marker_ts_path env),
                    Some (main_ts_path env)], w')))"

subsection \<open>Lines 167 to 174: the exception handlers\<close>

text \<open>
  The exception that leaves the try statement when the body raised \<open>e\<close>.
  For a \<^verbatim>\<open>CalledProcessError\<close>, line 168 calls \<^verbatim>\<open>e.stderr.decode\<close>: on \<^verbatim>\<open>None\<close> that is
  an \<^verbatim>\<open>AttributeError\<close>, raised inside the handler, which no other handler of the
  statement sees. Every \<^verbatim>\<open>MarkerError\<close> is raised again (lines 169 to 173), any other
  exception is wrapped (line 174).
\<close>

definition mark_video_except :: "env \<Rightarrow> py_exc \<Rightarrow> py_exc" where
  "mark_video_except env e =
     (case e of
        CalledProcessError rc cmd err \<Rightarrow>
          (case err of
             None \<Rightarrow> Builtin (AttributeError
                       (quote @ ''NoneType'' @ quote @ '' object has no attribute ''
                        @ quote @ ''decode'' @ quote))
           | Some b \<Rightarrow> Marker (FFmpegProcessError cmd (Some (decode_utf8_ignore env b))))
      | Marker m \<Rightarrow> Marker m
      | Builtin b \<Rightarrow>
          Marker (VideoMarkingError
            (''An unexpected error occurred during marking: '' @ builtin_str b)))"

subsection \<open>Lines 175 to 181: the finally clause\<close>

definition cleanup_one :: "env \<Rightarrow> filesystem \<Rightarrow> string option \<Rightarrow> filesystem" where
  "cleanup_one env f p =
     (case p of
        None \<Rightarrow> f
      | Some q \<Rightarrow>
          if q \<noteq> [] \<and> os_path_exists f q
          then (case os_remove env q f of Inl e \<Rightarrow> f | Inr f' \<Rightarrow> f')
          else f)"

definition cleanup :: "env \<Rightarrow> string option list \<Rightarrow> filesystem \<Rightarrow> filesystem" where
  "cleanup env ps f = foldl (cleanup_one env) f ps"

subsection \<open>The whole function\<close>

definition mark_video ::
  "env \<Rightarrow> string \<Rightarrow> string option \<Rightarrow> (int \<times> int) option \<Rightarrow> string option \<Rightarrow> world
   \<Rightarrow> (py_exc + unit) \<times> world" where
  "mark_video env input_path output_path resolution overlay_text w =
     (case mark_video_paths env input_path output_path w of
        (Inl e, w1) \<Rightarrow> (Inl e, w1)
      | (Inr output_p, w1) \<Rightarrow>
          (case mark_video_try env input_path output_p resolution overlay_text w1 of
             (r, temps, w2) \<Rightarrow>
               (case r of Inl e \<Rightarrow> Inl (mark_video_except env e) | Inr u \<Rightarrow> Inr u,
                w2\<lparr>fs := cleanup env temps (fs w2)\<rparr>)))"

subsection \<open>The commands of a call\<close>

text \<open>
  The commands that a call passed to \<^verbatim>\<open>subprocess.run\<close>: what the world \<open>w'\<close> after the
  call has recorded beyond the world \<open>w\<close> before it.
\<close>

definition new_invoked :: "world \<Rightarrow> world \<Rightarrow> string list list" where
  "new_invoked w w' = drop (length (invoked w)) (invoked w')"

text \<open>
  The four commands of lines 128 to 165 in the order of the source: the synthesis of the
  marker, the two remuxes and the concatenation.
\<close>

definition pipeline_cmds ::
  "env \<Rightarrow> string \<Rightarrow> path \<Rightarrow> string option \<Rightarrow> int \<times> int \<times> string \<times> string
   \<Rightarrow> string list list" where
  "pipeline_cmds env input_path output_p overlay_text ps =
     (case ps of (wd, ht, fps, video_codec) \<Rightarrow>
       [cmd_marker (generate_lavfi_drawtext env (overlay_of input_path overlay_text) (wd, ht))
          (video_encoder_of video_codec) fps (marker_container_path env),
        remux_cmd (v_bsf_of video_codec) (marker_container_path env) (marker_ts_path env),
        remux_cmd (v_bsf_of video_codec) input_path (main_ts_path env),
        final_cmd output_p (marker_ts_path env) (main_ts_path env)])"

section \<open>A concrete environment\<close>

text \<open>
  A file system with the input file \<open>''/v/clip.mp4''\<close>, a probe that reports one stream
  as given, a temporary directory \<open>''/tmp''\<close>, and processes that exit with the return
  code \<open>rc cmd\<close> after creating the file named by the last argument of their command.
\<close>

definition demo_fs :: filesystem where
  "demo_fs = (\<lambda>p. if p = ''/v/clip.mp4'' then Some File else if p = ''/v'' then Some Dir else None)"

definition demo_world :: world where
  "demo_world = \<lparr>fs = demo_fs, invoked = []\<rparr>"

definition demo_env :: "stream list \<Rightarrow> (string list \<Rightarrow> int) \<Rightarrow> env" where
  "demo_env ss rc =
     \<lparr>ffprobe_param = (\<lambda>p. Inr \<lparr>streams = Some ss\<rparr>),
      generate_lavfi_drawtext =
        (\<lambda>t r. ''color=c=black:s='' @ str_int (fst r) @ ''x'' @ str_int (snd r) @ '':text='' @ t),
      gettempdir = ''/tmp'',
      uuid4_hex = ''0f'',
      run_proc = (\<lambda>cmd f. Exited (rc cmd) ''boom'' (f(last cmd \<mapsto> File))),
      mkdir_parent = (\<lambda>p f. (None, f)),
      remove_denied = (\<lambda>p. False),
      Fraction_other = (\<lambda>s. Inl (ValueError (''Invalid literal for Fraction: '' @ s))),
      decode_utf8_ignore = (\<lambda>b. b)\<rparr>"

definition video_stream_of :: "string \<Rightarrow> int \<Rightarrow> int \<Rightarrow> string option \<Rightarrow> stream" where
  "video_stream_of codec wd ht rate =
     \<lparr>codec_type = Some ''video'', codec_name = Some codec, width = Some wd, height = Some ht,
      r_frame_rate = rate\<rparr>"

text \<open>
  Return codes for the concrete environment: the remux of the marker fails, the
  concatenation fails.
\<close>

definition fail_remux :: "string list \<Rightarrow> int" where
  "fail_remux cmd = (if last cmd = ''/tmp/marker_0f.ts'' then 1 else 0)"

definition fail_concat :: "string list \<Rightarrow> int" where
  "fail_concat cmd = (if last cmd = ''/v/clip_marked.mp4'' then 1 else 0)"

text \<open>The concrete environment without the \<^verbatim>\<open>ffmpeg\<close> executable.\<close>

definition demo_env_no_ffmpeg :: "stream list \<Rightarrow> env" where
  "demo_env_no_ffmpeg ss = (demo_env ss (\<lambda>c. 0))\<lparr>run_proc := (\<lambda>cmd f. NotFound)\<rparr>"

text \<open>A probe result with every codec name in lower case.\<close>

definition lower_codec_name :: "stream \<Rightarrow> stream" where
  "lower_codec_name s = s\<lparr>codec_name := map_option lower (codec_name s)\<rparr>"

definition lower_codec_names :: "probe \<Rightarrow> probe" where
  "lower_codec_names pr = pr\<lparr>streams := map_option (map lower_codec_name) (streams pr)\<rparr>"

text \<open>The environment whose probe reports the codec names of \<open>env\<close> in lower case.\<close>

definition with_lower_codec_names :: "env \<Rightarrow> env" where
  "with_lower_codec_names env =
     env\<lparr>ffprobe_param := (\<lambda>p. map_sum id lower_codec_names (ffprobe_param env p))\<rparr>"

section \<open>How a call unfolds\<close>

lemma mark_video_paths_invoked:
  "mark_video_paths env i out w = (r, w1) \<Longrightarrow> invoked w1 = invoked w"
  by (auto simp: mark_video_paths_def Let_def split: if_splits option.splits sum.splits prod.splits)

lemma subprocess_run_invoked:
  "subprocess_run env cmd a b w = (r, w') \<Longrightarrow> invoked w' = invoked w @ [cmd]"
  by (auto simp: subprocess_run_def split: proc_result.splits)

lemma mark_video_run_invoked:
  assumes "mark_video_run env i outp ov ps w = (r, w')"
  shows "\<exists>k. 1 \<le> k \<and> k \<le> 4 \<and> invoked w' = invoked w @ take k (pipeline_cmds env i outp ov ps)
            \<and> (k < 4 \<longrightarrow> r \<noteq> Inr ())"
  using assms
  apply (cases ps)
  apply (simp add: mark_video_run_def pipeline_cmds_def Let_def split: prod.splits sum.splits)
  apply (auto dest!: subprocess_run_invoked)
  apply (rule_tac x="length (invoked w') - length (invoked w)" in exI, simp)+
  done

lemma checks_ok:
  assumes "ffprobe_param env i = Inr pr"
    and "first_stream ''video'' (stream_list pr) = Some vs"
    and "resolve_resolution res vs = (wd, ht)" and "0 < wd" and "0 < ht"
    and "codec_lower vs = ''h264'' \<or> codec_lower vs = ''hevc''"
    and "case first_stream ''audio'' (stream_list pr) of
           None \<Rightarrow> True | Some a \<Rightarrow> codec_lower a = [] \<or> codec_lower a = ''aac''"
  shows "mark_video_checks env i res = Inr (wd, ht, resolve_fps env vs, codec_lower vs)"
  using assms
  by (auto simp: mark_video_checks_def Let_def first_stream_def split: option.splits)

lemma cleanup_none: "cleanup env [None, None, None] f = f"
  by (simp add: cleanup_def cleanup_one_def)

lemma mark_video_rejected:
  assumes "mark_video_paths env i out w = (Inr outp, w1)"
    and "mark_video_checks env i res = Inl e"
  shows "mark_video env i out res ov w = (Inl (mark_video_except env e), w1)"
  using assms by (simp add: mark_video_def mark_video_try_def cleanup_none)

lemma mark_video_reached:
  assumes "mark_video_paths env i out w = (Inr outp, w1)"
    and "mark_video_checks env i res = Inr ps"
    and "mark_video_run env i outp ov ps w1 = (r, w2)"
  shows "mark_video env i out res ov w =
           (case r of Inl e \<Rightarrow> Inl (mark_video_except env e) | Inr u \<Rightarrow> Inr u,
            w2\<lparr>fs := cleanup env [Some (marker_container_path env), Some (marker_ts_path env),
                                  Some (main_ts_path env)] (fs w2)\<rparr>)"
  using assms by (simp add: mark_video_def mark_video_try_def)

lemma mark_video_first_cmd:
  assumes "mark_video_paths env i out w = (Inr outp, w1)"
    and "mark_video_checks env i res = Inr ps"
  shows "take 1 (new_invoked w (snd (mark_video env i out res ov w)))
           = take 1 (pipeline_cmds env i outp ov ps)"
proof -
  obtain r w2 where run: "mark_video_run env i outp ov ps w1 = (r, w2)"
    by (cases "mark_video_run env i outp ov ps w1")
  from mark_video_run_invoked [OF run] obtain k where
    k: "1 \<le> k" "invoked w2 = invoked w1 @ take k (pipeline_cmds env i outp ov ps)"
    by blast
  have "invoked w1 = invoked w"
    using assms(1) by (rule mark_video_paths_invoked)
  with k show ?thesis
    by (simp add: mark_video_reached [OF assms run] new_invoked_def min_def)
qed

lemma Fraction_30: "Fraction_str env ''30/1'' = Inr \<lparr>numerator = 30, denominator = 1\<rparr>"
  by (simp add: Fraction_str_def simple_rational_def is_digit_def digits_value_def Fraction_new_def)

lemma str_int_30: "str_int 30 = ''30''"
  by code_simp

lemma resolve_fps_default: "r_frame_rate vs = None \<Longrightarrow> resolve_fps env vs = ''30''"
  by (simp add: resolve_fps_def Fraction_30 str_Fraction_def str_int_30)

lemma checks_Inr_D:
  assumes "ffprobe_param env i = Inr pr"
    and "first_stream ''video'' (stream_list pr) = Some vs"
    and "mark_video_checks env i res = Inr ps"
  shows "ps = (fst (resolve_resolution res vs), snd (resolve_resolution res vs),
               resolve_fps env vs, codec_lower vs)"
  using assms
  by (auto simp: mark_video_checks_def Let_def split: option.splits if_splits prod.splits)

lemma checks_bad_resolution:
  assumes "ffprobe_param env i = Inr pr"
    and "first_stream ''video'' (stream_list pr) = Some vs"
    and "fst (resolve_resolution res vs) \<le> 0 \<or> snd (resolve_resolution res vs) \<le> 0"
  shows "mark_video_checks env i res =
           Inl (invalid_resolution_error (fst (resolve_resolution res vs)) (snd (resolve_resolution res vs)))"
  using assms
  by (auto simp: mark_video_checks_def Let_def first_stream_def split: option.splits if_splits prod.splits)

lemma except_marker: "mark_video_except env (Marker m) = Marker m"
  by (simp add: mark_video_except_def)

section \<open>The concrete environment, evaluated\<close>

lemma demo_paths_default:
  "fst (mark_video_paths (demo_env ss rc) ''/v/clip.mp4'' None demo_world) =
     Inr (PurePath ''/'' [''v'', ''clip_marked.mp4''])"
  by code_simp

lemma demo_probe: "ffprobe_param (demo_env ss rc) i = Inr \<lparr>streams = Some ss\<rparr>"
  by (simp add: demo_env_def)

lemma demo_paths_default_eq:
  "mark_video_paths (demo_env ss rc) ''/v/clip.mp4'' None demo_world =
     (Inr (PurePath ''/'' [''v'', ''clip_marked.mp4'']),
      snd (mark_video_paths (demo_env ss rc) ''/v/clip.mp4'' None demo_world))"
  using demo_paths_default [of ss rc] by (simp add: prod_eq_iff)

lemma demo_first_video:
  "first_stream ''video'' (stream_list \<lparr>streams = Some (video_stream_of c a b r # ss)\<rparr>)
     = Some (video_stream_of c a b r)"
  by (simp add: first_stream_def stream_list_def video_stream_of_def)

section \<open>The resolved resolution\<close>

text \<open>
  C6. For a call whose paths are accepted and whose probe reports a first video stream:
  the resolved resolution is the override when one is supplied and the stream's width and
  height (0 for a missing key) otherwise; when the resolved width or height is not
  positive the call fails with the invalid-resolution error (an \<^verbatim>\<open>InvalidMediaError\<close>);
  and whenever the validation passes, the command that synthesises the marker is built
  from the resolved resolution.
\<close>

theorem resolution_resolved:
  assumes "mark_video_paths env i out w = (Inr outp, w1)"
    and "ffprobe_param env i = Inr pr"
    and "first_stream ''video'' (stream_list pr) = Some vs"
  shows "resolve_resolution res vs =
           (case res of
              Some r \<Rightarrow> r
            | None \<Rightarrow> (case width vs of None \<Rightarrow> 0 | Some x \<Rightarrow> x,
                       case height vs of None \<Rightarrow> 0 | Some x \<Rightarrow> x))
         \<and> (fst (resolve_resolution res vs) \<le> 0 \<or> snd (resolve_resolution res vs) \<le> 0 \<longrightarrow>
              mark_video env i out res ov w =
                (Inl (invalid_resolution_error (fst (resolve_resolution res vs))
                        (snd (resolve_resolution res vs))), w1))
         \<and> (\<forall>ps. mark_video_checks env i res = Inr ps \<longrightarrow>
              take 1 (new_invoked w (snd (mark_video env i out res ov w))) =
                [cmd_marker
                   (generate_lavfi_drawtext env (overlay_of i ov) (resolve_resolution res vs))
                   (video_encoder_of (codec_lower vs)) (resolve_fps env vs)
                   (marker_container_path env)])"
proof (intro conjI impI allI)
  show "resolve_resolution res vs =
           (case res of
              Some r \<Rightarrow> r
            | None \<Rightarrow> (case width vs of None \<Rightarrow> 0 | Some x \<Rightarrow> x,
                       case height vs of None \<Rightarrow> 0 | Some x \<Rightarrow> x))"
    by (simp add: resolve_resolution_def split: option.splits)
next
  assume bad: "fst (resolve_resolution res vs) \<le> 0 \<or> snd (resolve_resolution res vs) \<le> 0"
  have "mark_video_checks env i res =
          Inl (invalid_resolution_error (fst (resolve_resolution res vs)) (snd (resolve_resolution res vs)))"
    using assms(2,3) bad by (rule checks_bad_resolution)
  from mark_video_rejected [OF assms(1) this]
  show "mark_video env i out res ov w =
          (Inl (invalid_resolution_error (fst (resolve_resolution res vs))
                  (snd (resolve_resolution res vs))), w1)"
    by (simp add: invalid_resolution_error_def except_marker)
next
  fix ps
  assume ok: "mark_video_checks env i res = Inr ps"
  have ps: "ps = (fst (resolve_resolution res vs), snd (resolve_resolution res vs),
               resolve_fps env vs, codec_lower vs)"
    using assms(2,3) ok by (rule checks_Inr_D)
  from mark_video_first_cmd [OF assms(1) ok]
  show "take 1 (new_invoked w (snd (mark_video env i out res ov w))) =
          [cmd_marker
             (generate_lavfi_drawtext env (overlay_of i ov) (resolve_resolution res vs))
             (video_encoder_of (codec_lower vs)) (resolve_fps env vs)
             (marker_container_path env)]"
    by (simp add: ps pipeline_cmds_def)
qed

text \<open>
  The override \<open>(640, 480)\<close> wins over a probed \<open>1920x1080\<close>, and the override
  \<open>(0, 480)\<close> is rejected.
\<close>

theorem resolution_resolved_witness:
  "take 1 (new_invoked demo_world
      (snd (mark_video (demo_env [video_stream_of ''h264'' 1920 1080 (Some ''25/1'')] (\<lambda>c. 0))
              ''/v/clip.mp4'' None (Some (640, 480)) None demo_world))) =
     [cmd_marker ''color=c=black:s=640x480:text=Filename: clip.mp4'' ''libx264'' ''25''
        ''/tmp/marker_0f.mp4'']
   \<and> fst (mark_video (demo_env [video_stream_of ''h264'' 1920 1080 (Some ''25/1'')] (\<lambda>c. 0))
              ''/v/clip.mp4'' None (Some (0, 480)) None demo_world) =
       Inl (Marker (InvalidMediaError ''Invalid video resolution detected: 0x480.''))"
proof -
  let ?env = "demo_env [video_stream_of ''h264'' 1920 1080 (Some ''25/1'')] (\<lambda>c. 0)"
  let ?vs = "video_stream_of ''h264'' 1920 1080 (Some ''25/1'')"
  have ok: "mark_video_checks ?env ''/v/clip.mp4'' (Some (640, 480)) = Inr (640, 480, ''25'', ''h264'')"
    by code_simp
  have r1: "resolve_resolution (Some (640, 480)) ?vs = (640, 480)"
    by (simp add: resolve_resolution_def)
  have r2: "resolve_resolution (Some (0, 480)) ?vs = (0, 480)"
    by (simp add: resolve_resolution_def)
  have fps: "resolve_fps ?env ?vs = ''25''" by code_simp
  have lav: "generate_lavfi_drawtext ?env (overlay_of ''/v/clip.mp4'' None) (640, 480)
               = ''color=c=black:s=640x480:text=Filename: clip.mp4''"
    by code_simp
  have enc: "video_encoder_of (codec_lower ?vs) = ''libx264''" by code_simp
  have mc: "marker_container_path ?env = ''/tmp/marker_0f.mp4''" by code_simp
  have err: "invalid_resolution_error 0 480
               = Marker (InvalidMediaError ''Invalid video resolution detected: 0x480.'')"
    by code_simp
  note p = demo_paths_default_eq [of "[?vs]" "\<lambda>c. 0"]
  note a = resolution_resolved [where res = "Some (640, 480)" and ov = None,
      OF p demo_probe demo_first_video]
  note b = resolution_resolved [where res = "Some (0, 480)" and ov = None,
      OF p demo_probe demo_first_video]
  from a ok have "take 1 (new_invoked demo_world (snd (mark_video ?env
              ''/v/clip.mp4'' None (Some (640, 480)) None demo_world))) =
     [cmd_marker ''color=c=black:s=640x480:text=Filename: clip.mp4'' ''libx264'' ''25''
        ''/tmp/marker_0f.mp4'']"
    by (simp only: r1 fps lav enc mc)
  moreover from b have "fst (mark_video ?env
              ''/v/clip.mp4'' None (Some (0, 480)) None demo_world) =
       Inl (Marker (InvalidMediaError ''Invalid video resolution detected: 0x480.''))"
    by (simp add: r2 err)
  ultimately show ?thesis by simp
qed

section \<open>The frame rate\<close>



text \<open>
  C9. When the first video stream has no \<^verbatim>\<open>r_frame_rate\<close> key, the frame rate defaults to
  \<open>''30/1''\<close>, which resolves to \<open>''30''\<close>, and \<open>''30''\<close> is what the encode command of a
  call that passes the validation receives.
\<close>

theorem default_frame_rate:
  assumes "mark_video_paths env i out w = (Inr outp, w1)"
    and "ffprobe_param env i = Inr pr"
    and "first_stream ''video'' (stream_list pr) = Some vs"
    and "r_frame_rate vs = None"
    and "resolve_resolution res vs = (wd, ht)" and "0 < wd" and "0 < ht"
    and "codec_lower vs = ''h264'' \<or> codec_lower vs = ''hevc''"
    and "case first_stream ''audio'' (stream_list pr) of
           None \<Rightarrow> True | Some a \<Rightarrow> codec_lower a = [] \<or> codec_lower a = ''aac''"
  shows "resolve_fps env vs = ''30''
         \<and> take 1 (new_invoked w (snd (mark_video env i out res ov w))) =
           [cmd_marker (generate_lavfi_drawtext env (overlay_of i ov) (wd, ht))
              (video_encoder_of (codec_lower vs)) ''30'' (marker_container_path env)]"
proof -
  have fps: "resolve_fps env vs = ''30''"
    using assms(4) by (rule resolve_fps_default)
  have ok: "mark_video_checks env i res = Inr (wd, ht, resolve_fps env vs, codec_lower vs)"
    using assms(2,3,5-9) by (rule checks_ok)
  from mark_video_first_cmd [OF assms(1) ok] fps show ?thesis
    by (simp add: pipeline_cmds_def)
qed

text \<open>A stream without a frame rate: the marker is encoded at \<open>''30''\<close>.\<close>

theorem default_frame_rate_witness:
  "take 1 (new_invoked demo_world
      (snd (mark_video (demo_env [video_stream_of ''hevc'' 1280 720 None] (\<lambda>c. 0))
              ''/v/clip.mp4'' None None None demo_world))) =
     [cmd_marker ''color=c=black:s=1280x720:text=Filename: clip.mp4'' ''libx265'' ''30''
        ''/tmp/marker_0f.mp4'']"
proof -
  let ?a = "video_stream_of ''hevc'' 1280 720 None"
  let ?ea = "demo_env [?a] (\<lambda>c. 0)"
  have ra: "r_frame_rate ?a = None"
    by (simp add: video_stream_of_def)
  have res: "resolve_resolution None ?a = (1280, 720)"
    by (simp add: resolve_resolution_def video_stream_of_def)
  have codec: "codec_lower ?a = ''h264'' \<or> codec_lower ?a = ''hevc''"
    by code_simp
  have audio: "case first_stream ''audio'' (stream_list \<lparr>streams = Some [?a]\<rparr>) of
           None \<Rightarrow> True | Some a \<Rightarrow> codec_lower a = [] \<or> codec_lower a = ''aac''"
    by code_simp
  have lav: "generate_lavfi_drawtext ?ea (overlay_of ''/v/clip.mp4'' None) (1280, 720)
               = ''color=c=black:s=1280x720:text=Filename: clip.mp4''"
    by code_simp
  have enc: "video_encoder_of (codec_lower ?a) = ''libx265''" by code_simp
  have mc: "marker_container_path ?ea = ''/tmp/marker_0f.mp4''" by code_simp
  note a = default_frame_rate [where ov = None,
      OF demo_paths_default_eq demo_probe demo_first_video ra res _ _ codec audio]
  show ?thesis
    using a by (simp only: lav enc mc)
qed

section \<open>The codec checks ignore case\<close>

lemma lower_char_idem: "lower_char (lower_char c) = lower_char c"
  by (simp add: lower_char_def Let_def)

lemma lower_idem: "lower (lower s) = lower s"
  by (simp add: lower_def lower_char_idem)

lemma codec_lower_lower_codec_name: "codec_lower (lower_codec_name s) = codec_lower s"
  by (cases "codec_name s") (simp_all add: codec_lower_def lower_codec_name_def lower_idem)

lemma first_stream_lower_codec_name:
  "first_stream k (map lower_codec_name ss) = map_option lower_codec_name (first_stream k ss)"
  by (induction ss) (simp_all add: first_stream_def lower_codec_name_def)

lemma stream_list_lower_codec_names:
  "stream_list (lower_codec_names pr) = map lower_codec_name (stream_list pr)"
  by (simp add: stream_list_def lower_codec_names_def split: option.splits)

lemma resolve_resolution_lower_codec_name:
  "resolve_resolution res (lower_codec_name s) = resolve_resolution res s"
  by (simp add: resolve_resolution_def lower_codec_name_def split: option.splits)

lemma fields_lower_codec_names:
  "generate_lavfi_drawtext (with_lower_codec_names env) = generate_lavfi_drawtext env"
  "gettempdir (with_lower_codec_names env) = gettempdir env"
  "uuid4_hex (with_lower_codec_names env) = uuid4_hex env"
  "run_proc (with_lower_codec_names env) = run_proc env"
  "mkdir_parent (with_lower_codec_names env) = mkdir_parent env"
  "remove_denied (with_lower_codec_names env) = remove_denied env"
  "Fraction_other (with_lower_codec_names env) = Fraction_other env"
  "decode_utf8_ignore (with_lower_codec_names env) = decode_utf8_ignore env"
  by (simp_all add: with_lower_codec_names_def)

lemma Fraction_str_lower_codec_names:
  "Fraction_str (with_lower_codec_names env) s = Fraction_str env s"
  unfolding Fraction_str_def fields_lower_codec_names by simp

lemma resolve_fps_lower_codec_name:
  "resolve_fps (with_lower_codec_names env) (lower_codec_name s) = resolve_fps env s"
  by (simp add: resolve_fps_def lower_codec_name_def Fraction_str_lower_codec_names)

lemma checks_lower_codec_names:
  "mark_video_checks (with_lower_codec_names env) i res = mark_video_checks env i res"
proof (cases "ffprobe_param env i")
  case (Inl e)
  then show ?thesis
    by (simp add: mark_video_checks_def with_lower_codec_names_def)
next
  case (Inr pr)
  then have "ffprobe_param (with_lower_codec_names env) i = Inr (lower_codec_names pr)"
    by (simp add: with_lower_codec_names_def)
  with Inr show ?thesis
    by (simp add: mark_video_checks_def stream_list_lower_codec_names
        first_stream_lower_codec_name resolve_resolution_lower_codec_name
        resolve_fps_lower_codec_name codec_lower_lower_codec_name Let_def
        split: option.splits prod.splits)
qed

lemma paths_lower_codec_names:
  "mark_video_paths (with_lower_codec_names env) = mark_video_paths env"
  unfolding fun_eq_iff mark_video_paths_def fields_lower_codec_names by simp

lemma subprocess_run_lower_codec_names:
  "subprocess_run (with_lower_codec_names env) = subprocess_run env"
  unfolding fun_eq_iff subprocess_run_def fields_lower_codec_names by simp

lemma remux_loop_lower_codec_names:
  "remux_loop (with_lower_codec_names env) b ps w = remux_loop env b ps w"
  by (induction ps arbitrary: w)
    (auto simp: subprocess_run_lower_codec_names split: prod.splits sum.splits)

lemma temp_paths_lower_codec_names:
  "marker_container_path (with_lower_codec_names env) = marker_container_path env"
  "marker_ts_path (with_lower_codec_names env) = marker_ts_path env"
  "main_ts_path (with_lower_codec_names env) = main_ts_path env"
  by (simp_all add: marker_container_path_def marker_ts_path_def main_ts_path_def
      fields_lower_codec_names)

lemma run_lower_codec_names:
  "mark_video_run (with_lower_codec_names env) i outp ov ps w = mark_video_run env i outp ov ps w"
  unfolding mark_video_run_def temp_paths_lower_codec_names fields_lower_codec_names
    subprocess_run_lower_codec_names remux_loop_lower_codec_names
  by simp

lemma except_lower_codec_names:
  "mark_video_except (with_lower_codec_names env) = mark_video_except env"
  unfolding fun_eq_iff mark_video_except_def fields_lower_codec_names by simp

lemma cleanup_lower_codec_names:
  "cleanup (with_lower_codec_names env) = cleanup env"
proof -
  have eq: "cleanup_one (with_lower_codec_names env) = cleanup_one env"
    unfolding fun_eq_iff cleanup_one_def os_remove_def fields_lower_codec_names by simp
  show ?thesis unfolding fun_eq_iff cleanup_def eq by simp
qed

text \<open>
  C10. The codec checks are case-insensitive: the video and audio codec names are put in
  lower case before they are compared and used, so a call whose probe reports the codec
  names in any case does exactly what the call does whose probe reports them in lower
  case (same result, same commands, same file system).
\<close>

theorem codec_checks_case_insensitive:
  "mark_video (with_lower_codec_names env) i out res ov w = mark_video env i out res ov w"
  unfolding mark_video_def mark_video_try_def paths_lower_codec_names
      checks_lower_codec_names run_lower_codec_names except_lower_codec_names
      cleanup_lower_codec_names temp_paths_lower_codec_names
  by simp

text \<open>
  The codecs \<open>''H264''\<close> and \<open>''AAC''\<close> pass the validation, and the call does what it does
  for \<open>''h264''\<close> and \<open>''aac''\<close>.
\<close>

theorem codec_checks_case_insensitive_witness:
  "mark_video
     (demo_env [video_stream_of ''H264'' 1280 720 (Some ''25/1''),
                \<lparr>codec_type = Some ''audio'', codec_name = Some ''AAC'', width = None,
                 height = None, r_frame_rate = None\<rparr>] (\<lambda>c. 0))
     ''/v/clip.mp4'' None None None demo_world =
   mark_video
     (demo_env [video_stream_of ''h264'' 1280 720 (Some ''25/1''),
                \<lparr>codec_type = Some ''audio'', codec_name = Some ''aac'', width = None,
                 height = None, r_frame_rate = None\<rparr>] (\<lambda>c. 0))
     ''/v/clip.mp4'' None None None demo_world
   \<and> mark_video_checks
     (demo_env [video_stream_of ''H264'' 1280 720 (Some ''25/1''),
                \<lparr>codec_type = Some ''audio'', codec_name = Some ''AAC'', width = None,
                 height = None, r_frame_rate = None\<rparr>] (\<lambda>c. 0))
     ''/v/clip.mp4'' None = Inr (1280, 720, ''25'', ''h264'')"
proof -
  let ?U = "demo_env [video_stream_of ''H264'' 1280 720 (Some ''25/1''),
                \<lparr>codec_type = Some ''audio'', codec_name = Some ''AAC'', width = None,
                 height = None, r_frame_rate = None\<rparr>] (\<lambda>c. 0)"
  let ?L = "demo_env [video_stream_of ''h264'' 1280 720 (Some ''25/1''),
                \<lparr>codec_type = Some ''audio'', codec_name = Some ''aac'', width = None,
                 height = None, r_frame_rate = None\<rparr>] (\<lambda>c. 0)"
  have l1: "lower ''H264'' = ''h264''" and l2: "lower ''AAC'' = ''aac''"
    by code_simp+
  have env: "with_lower_codec_names ?U = ?L"
    by (simp add: with_lower_codec_names_def demo_env_def lower_codec_names_def
        lower_codec_name_def video_stream_of_def l1 l2)
  have ok: "mark_video_checks ?U ''/v/clip.mp4'' None = Inr (1280, 720, ''25'', ''h264'')"
    by code_simp
  from codec_checks_case_insensitive [of ?U "''/v/clip.mp4''" None None None demo_world] ok
  show ?thesis
    by (simp only: env)
qed

section \<open>Unsupported video codecs\<close>

lemma checks_bad_codec:
  assumes "ffprobe_param env i = Inr pr"
    and "first_stream ''video'' (stream_list pr) = Some vs"
    and "codec_lower vs \<noteq> ''h264''" and "codec_lower vs \<noteq> ''hevc''"
    and "0 < fst (resolve_resolution res vs)" and "0 < snd (resolve_resolution res vs)"
  shows "mark_video_checks env i res = Inl (unsupported_video_codec_error (codec_lower vs))"
  using assms
  by (auto simp: mark_video_checks_def Let_def first_stream_def split: option.splits prod.splits)

text \<open>
  C4, as the code has it. For every call whose paths are accepted and whose probe reports
  a first video stream with a codec name that is, in lower case, neither \<open>''h264''\<close> nor
  \<open>''hevc''\<close>: the call fails with an \<^verbatim>\<open>InvalidMediaError\<close> and passes no command to
  \<^verbatim>\<open>subprocess.run\<close>, so the marker is never synthesised. The error is the
  unsupported-video-codec error when the resolved width and height are positive; the
  resolution is checked first (line 95), so otherwise it is the invalid-resolution error.
\<close>

theorem unsupported_video_codec_rejected:
  assumes "mark_video_paths env i out w = (Inr outp, w1)"
    and "ffprobe_param env i = Inr pr"
    and "first_stream ''video'' (stream_list pr) = Some vs"
    and "codec_lower vs \<noteq> ''h264''" and "codec_lower vs \<noteq> ''hevc''"
  shows "mark_video env i out res ov w =
           (Inl (if fst (resolve_resolution res vs) \<le> 0 \<or> snd (resolve_resolution res vs) \<le> 0
                 then invalid_resolution_error (fst (resolve_resolution res vs))
                        (snd (resolve_resolution res vs))
                 else unsupported_video_codec_error (codec_lower vs)), w1)
         \<and> new_invoked w (snd (mark_video env i out res ov w)) = []"
proof -
  let ?e = "if fst (resolve_resolution res vs) \<le> 0 \<or> snd (resolve_resolution res vs) \<le> 0
            then invalid_resolution_error (fst (resolve_resolution res vs))
                   (snd (resolve_resolution res vs))
            else unsupported_video_codec_error (codec_lower vs)"
  have "mark_video_checks env i res = Inl ?e"
  proof (cases "fst (resolve_resolution res vs) \<le> 0 \<or> snd (resolve_resolution res vs) \<le> 0")
    case True
    with checks_bad_resolution [OF assms(2,3) True] show ?thesis by simp
  next
    case False
    then have "0 < fst (resolve_resolution res vs)" "0 < snd (resolve_resolution res vs)"
      by simp_all
    from checks_bad_codec [OF assms(2-5) this] False show ?thesis by simp
  qed
  from mark_video_rejected [OF assms(1) this]
  have run: "mark_video env i out res ov w = (Inl (mark_video_except env ?e), w1)" .
  have marker: "mark_video_except env ?e = ?e"
    by (simp add: invalid_resolution_error_def unsupported_video_codec_error_def except_marker)
  have "invoked w1 = invoked w"
    using assms(1) by (rule mark_video_paths_invoked)
  with run marker show ?thesis
    by (simp add: new_invoked_def)
qed

text \<open>A \<open>vp9\<close> stream of 1280 by 720 is rejected for its codec, and nothing is run.\<close>

theorem unsupported_video_codec_rejected_witness:
  "fst (mark_video (demo_env [video_stream_of ''vp9'' 1280 720 (Some ''25/1'')] (\<lambda>c. 0))
          ''/v/clip.mp4'' None None None demo_world) =
     Inl (Marker (InvalidMediaError
       (''Unsupported video codec: '' @ quote @ ''vp9'' @ quote
        @ ''. Only h264/hevc are supported for stream copying.'')))
   \<and> new_invoked demo_world
       (snd (mark_video (demo_env [video_stream_of ''vp9'' 1280 720 (Some ''25/1'')] (\<lambda>c. 0))
          ''/v/clip.mp4'' None None None demo_world)) = []"
proof -
  let ?vs = "video_stream_of ''vp9'' 1280 720 (Some ''25/1'')"
  have c: "codec_lower ?vs = ''vp9''" by code_simp
  have r: "resolve_resolution None ?vs = (1280, 720)"
    by (simp add: resolve_resolution_def video_stream_of_def)
  note a = unsupported_video_codec_rejected [where res = None and ov = None,
      OF demo_paths_default_eq demo_probe demo_first_video]
  note b = a [of "''vp9''" 1280 720 "Some ''25/1''" "[]" "\<lambda>c. 0"]
  have "fst (mark_video (demo_env [?vs] (\<lambda>c. 0)) ''/v/clip.mp4'' None None None demo_world) =
     Inl (Marker (InvalidMediaError
       (''Unsupported video codec: '' @ quote @ ''vp9'' @ quote
        @ ''. Only h264/hevc are supported for stream copying.'')))"
    using b [THEN conjunct1] by (simp add: c r unsupported_video_codec_error_def)
  moreover have "new_invoked demo_world
       (snd (mark_video (demo_env [?vs] (\<lambda>c. 0)) ''/v/clip.mp4'' None None None demo_world)) = []"
    using b [THEN conjunct2] by (simp add: c)
  ultimately show ?thesis by (rule conjI)
qed

text \<open>
  C4 as stated fails: for a first video stream with the codec \<open>vp9\<close>, a call with the
  override \<open>(0, 480)\<close>, and a call on a stream probed as 0 by 0, fail with the
  invalid-resolution error, not with the unsupported-video-codec error.
\<close>

theorem unsupported_video_codec_counterexample:
  "codec_name (video_stream_of ''vp9'' 1280 720 (Some ''25/1'')) = Some ''vp9''
   \<and> ''vp9'' \<notin> {''h264'', ''hevc''}
   \<and> fst (mark_video (demo_env [video_stream_of ''vp9'' 1280 720 (Some ''25/1'')] (\<lambda>c. 0))
          ''/v/clip.mp4'' None (Some (0, 480)) None demo_world) =
       Inl (Marker (InvalidMediaError ''Invalid video resolution detected: 0x480.''))
   \<and> fst (mark_video (demo_env [video_stream_of ''vp9'' 1280 720 (Some ''25/1'')] (\<lambda>c. 0))
          ''/v/clip.mp4'' None (Some (0, 480)) None demo_world) \<noteq>
       Inl (unsupported_video_codec_error ''vp9'')
   \<and> codec_name (video_stream_of ''vp9'' 0 0 (Some ''25/1'')) = Some ''vp9''
   \<and> fst (mark_video (demo_env [video_stream_of ''vp9'' 0 0 (Some ''25/1'')] (\<lambda>c. 0))
          ''/v/clip.mp4'' None None None demo_world) =
       Inl (Marker (InvalidMediaError ''Invalid video resolution detected: 0x0.''))
   \<and> fst (mark_video (demo_env [video_stream_of ''vp9'' 0 0 (Some ''25/1'')] (\<lambda>c. 0))
          ''/v/clip.mp4'' None None None demo_world) \<noteq>
       Inl (unsupported_video_codec_error ''vp9'')"
proof -
  have a: "fst (mark_video (demo_env [video_stream_of ''vp9'' 1280 720 (Some ''25/1'')] (\<lambda>c. 0))
          ''/v/clip.mp4'' None (Some (0, 480)) None demo_world) =
       Inl (Marker (InvalidMediaError ''Invalid video resolution detected: 0x480.''))"
    by code_simp
  have b: "fst (mark_video (demo_env [video_stream_of ''vp9'' 0 0 (Some ''25/1'')] (\<lambda>c. 0))
          ''/v/clip.mp4'' None None None demo_world) =
       Inl (Marker (InvalidMediaError ''Invalid video resolution detected: 0x0.''))"
    by code_simp
  show ?thesis
    unfolding a b
    by (simp add: video_stream_of_def unsupported_video_codec_error_def)
qed

section \<open>The commands of a call, in order\<close>

lemma length_pipeline_cmds: "length (pipeline_cmds env i outp ov ps) = 4"
  by (cases ps) (simp add: pipeline_cmds_def)

lemma mark_video_invoked_cases:
  "new_invoked w (snd (mark_video env i out res ov w)) = []
   \<or> (\<exists>outp w1 ps k.
         mark_video_paths env i out w = (Inr outp, w1)
         \<and> mark_video_checks env i res = Inr ps
         \<and> 1 \<le> k \<and> k \<le> 4
         \<and> new_invoked w (snd (mark_video env i out res ov w)) = take k (pipeline_cmds env i outp ov ps)
         \<and> (k < 4 \<longrightarrow> fst (mark_video env i out res ov w) \<noteq> Inr ()))"
proof (cases "mark_video_paths env i out w")
  case (Pair a w1)
  then have inv: "invoked w1 = invoked w"
    by (rule mark_video_paths_invoked)
  show ?thesis
  proof (cases a)
    case (Inl e)
    with Pair inv show ?thesis
      by (simp add: mark_video_def new_invoked_def)
  next
    case (Inr outp)
    note paths = Pair [unfolded Inr]
    show ?thesis
    proof (cases "mark_video_checks env i res")
      case (Inl e)
      from mark_video_rejected [OF paths Inl] inv show ?thesis
        by (simp add: new_invoked_def)
    next
      case (Inr ps)
      obtain r w2 where run: "mark_video_run env i outp ov ps w1 = (r, w2)"
        by (cases "mark_video_run env i outp ov ps w1")
      from mark_video_run_invoked [OF run] obtain k where
        k: "1 \<le> k" "k \<le> 4" "invoked w2 = invoked w1 @ take k (pipeline_cmds env i outp ov ps)"
           "k < 4 \<longrightarrow> r \<noteq> Inr ()"
        by blast
      have "new_invoked w (snd (mark_video env i out res ov w)) = take k (pipeline_cmds env i outp ov ps)"
        using k(3) inv by (simp add: mark_video_reached [OF paths Inr run] new_invoked_def)
      moreover have "k < 4 \<longrightarrow> fst (mark_video env i out res ov w) \<noteq> Inr ()"
        using k(4) by (auto simp: mark_video_reached [OF paths Inr run] split: sum.splits)
      ultimately show ?thesis
        using paths Inr k(1,2) by blast
    qed
  qed
qed

lemma demo_invoked:
  "new_invoked demo_world
     (snd (mark_video (demo_env [video_stream_of ''h264'' 1280 720 (Some ''25/1'')] (\<lambda>c. 0))
              ''/v/clip.mp4'' None None None demo_world)) =
   [cmd_marker ''color=c=black:s=1280x720:text=Filename: clip.mp4'' ''libx264'' ''25''
        ''/tmp/marker_0f.mp4'',
    remux_cmd ''h264_mp4toannexb'' ''/tmp/marker_0f.mp4'' ''/tmp/marker_0f.ts'',
    remux_cmd ''h264_mp4toannexb'' ''/v/clip.mp4'' ''/tmp/main_0f.ts'',
    [''ffmpeg'', ''-y'', ''-i'', ''concat:/tmp/marker_0f.ts|/tmp/main_0f.ts'', ''-c'', ''copy'',
     ''-bsf:a'', ''aac_adtstoasc'', ''/v/clip_marked.mp4'']]"
  by code_simp

text \<open>
  C7. Whenever a call builds the concatenation command, that is, whenever it has passed
  four commands to \<^verbatim>\<open>subprocess.run\<close>, the input of the fourth command is
  \<open>concat:A|B\<close> where \<open>A\<close>, listed first, is the transport segment written by the second
  command, the remux of the synthesised marker clip, and \<open>B\<close> is the transport segment
  written by the third command, the remux of the original input.
\<close>

theorem marker_segment_first:
  assumes "mark_video env i out res ov w = (r, w')"
    and "cs = new_invoked w w'"
    and "length cs = 4"
  shows "take 4 (cs ! 3) = [''ffmpeg'', ''-y'', ''-i'', ''concat:'' @ last (cs ! 1) @ ''|'' @ last (cs ! 2)]
         \<and> cs ! 1 = remux_cmd (cs ! 1 ! 7) (last (cs ! 0)) (last (cs ! 1))
         \<and> cs ! 2 = remux_cmd (cs ! 2 ! 7) i (last (cs ! 2))"
proof -
  have cs: "cs = new_invoked w (snd (mark_video env i out res ov w))"
    using assms(1,2) by simp
  have "cs \<noteq> []"
    using assms(3) by auto
  with mark_video_invoked_cases [of w env i out res ov, folded cs]
  obtain outp ps k where k: "k \<le> 4" "cs = take k (pipeline_cmds env i outp ov ps)"
    by blast
  with assms(3) have "k = 4"
    by (simp add: length_pipeline_cmds)
  with k have all: "cs = pipeline_cmds env i outp ov ps"
    by (simp add: length_pipeline_cmds)
  show ?thesis
    unfolding all
    by (cases ps) (simp add: pipeline_cmds_def final_cmd_def remux_cmd_def cmd_marker_def)
qed

text \<open>A run in which every process succeeds: the marker segment is listed first.\<close>

theorem marker_segment_first_witness:
  "take 4 (new_invoked demo_world
     (snd (mark_video (demo_env [video_stream_of ''h264'' 1280 720 (Some ''25/1'')] (\<lambda>c. 0))
              ''/v/clip.mp4'' None None None demo_world)) ! 3) =
   [''ffmpeg'', ''-y'', ''-i'', ''concat:'' @ ''/tmp/marker_0f.ts'' @ ''|'' @ ''/tmp/main_0f.ts'']"
proof -
  let ?E = "demo_env [video_stream_of ''h264'' 1280 720 (Some ''25/1'')] (\<lambda>c. 0)"
  let ?m = "mark_video ?E ''/v/clip.mp4'' None None None demo_world"
  have run: "?m = (fst ?m, snd ?m)" by simp
  have len: "length (new_invoked demo_world (snd ?m)) = 4"
    by (simp add: demo_invoked)
  from marker_segment_first [OF run refl len, THEN conjunct1]
  show ?thesis
    by (simp add: demo_invoked remux_cmd_def)
qed

section \<open>The extension of the output path\<close>

lemma rfind_None_iff: "rfind c xs = None \<longleftrightarrow> c \<notin> set xs"
  by (induction xs) (auto split: option.splits)

lemma rfind_append:
  "rfind c (ys @ xs) =
     (case rfind c xs of Some i \<Rightarrow> Some (length ys + i) | None \<Rightarrow> rfind c ys)"
  by (induction ys) (auto split: option.splits)

lemma rfind_Some_D:
  "rfind c xs = Some i \<Longrightarrow> i < length xs \<and> xs ! i = c \<and> c \<notin> set (drop (Suc i) xs)"
proof (induction xs arbitrary: i)
  case Nil
  then show ?case by simp
next
  case (Cons x xs)
  then show ?case
    by (cases "rfind c xs") (auto simp: rfind_None_iff split: if_splits)
qed

lemma rfind_suffix_part:
  assumes "rfind c n = Some i"
  shows "rfind c (drop i n) = Some 0"
proof -
  from rfind_Some_D [OF assms] have i: "i < length n" "n ! i = c" "c \<notin> set (drop (Suc i) n)"
    by simp_all
  then have "drop i n = c # drop (Suc i) n"
    using Cons_nth_drop_Suc [of i n] by simp
  moreover have "rfind c (drop (Suc i) n) = None"
    using i(3) by (simp add: rfind_None_iff)
  ultimately show ?thesis by simp
qed

lemma suffix_with_stem:
  assumes "suffix p \<noteq> []" and "with_stem p (stem p @ m) = Some q"
  shows "suffix q = suffix p"
proof -
  from assms(1) obtain j where j: "rfind (CHR ''.'') (name p) = Some j" "0 < j" "j + 1 < length (name p)"
    by (auto simp: suffix_def split: option.splits if_splits)
  then have suf: "suffix p = drop j (name p)" and st: "stem p = take j (name p)"
    by (simp_all add: suffix_def stem_def)
  from assms(2) have q: "name q = take j (name p) @ m @ drop j (name p)"
    by (auto simp: with_stem_def with_name_def name_def suf st split: if_splits)
  have r: "rfind (CHR ''.'') (name q) = Some (j + length m)"
    using j by (simp add: q rfind_append rfind_suffix_part [OF j(1)])
  have "length (name q) = length (name p) + length m"
    using j by (simp add: q)
  with j r show ?thesis
    by (simp add: suffix_def [of q] suf q)
qed

lemma paths_suffix:
  assumes "mark_video_paths env i out w = (Inr outp, w1)"
  shows "lower (suffix outp) \<in> VIDEO_EXTS"
proof (cases out)
  case None
  with assms obtain q where q: "with_stem (Path i) (stem (Path i) @ ''_marked'') = Some q"
    and inp: "lower (suffix (Path i)) \<in> VIDEO_EXTS" and "outp = q"
    by (auto simp: mark_video_paths_def Let_def split: if_splits option.splits prod.splits)
  from inp have "suffix (Path i) \<noteq> []"
    by (auto simp: VIDEO_EXTS_def lower_def)
  from suffix_with_stem [OF this q] inp \<open>outp = q\<close> show ?thesis by simp
next
  case (Some a)
  with assms show ?thesis
    by (auto simp: mark_video_paths_def Let_def split: if_splits option.splits prod.splits)
qed

lemma join_last: "t \<noteq> [] \<Longrightarrow> \<exists>pre. join sep t = pre @ last t"
proof (induction sep t rule: join.induct)
  case (3 sep x y ys)
  then obtain pre where "join sep (y # ys) = pre @ last (y # ys)" by auto
  then have "join sep (x # y # ys) = (x @ sep @ pre) @ last (x # y # ys)" by simp
  then show ?case by blast
qed simp_all

lemma str_path_suffix:
  assumes "suffix p \<noteq> []"
  shows "\<exists>pre. str_path p = pre @ suffix p"
proof -
  from assms obtain j where j: "suffix p = drop j (name p)"
    by (auto simp: suffix_def split: option.splits if_splits)
  from assms have ne: "tail p \<noteq> []" and nm: "name p = last (tail p)"
    by (auto simp: suffix_def name_def split: if_splits)
  from join_last [OF ne] obtain pre where pre: "join ''/'' (tail p) = pre @ last (tail p)"
    by blast
  have "pre @ last (tail p) = (pre @ take j (name p)) @ drop j (name p)"
    by (simp add: nm)
  with assms j pre have "str_path p = (root p @ pre @ take j (name p)) @ suffix p"
    by (auto simp: str_path_def Let_def)
  then show ?thesis by blast
qed

lemma lower_append: "lower (a @ b) = lower a @ lower b"
  by (simp add: lower_def)

lemma endswith_append: "endswith (pre @ x) x"
  by (simp add: endswith_def)

lemma endswith_mp4_ext:
  assumes "x \<in> VIDEO_EXTS"
  shows "endswith (pre @ x) ''.mp4'' \<longleftrightarrow> x = ''.mp4''"
proof -
  have four: "\<And>a b c d. endswith (pre @ [a, b, c, d]) ''.mp4'' \<longleftrightarrow> [a, b, c, d] = ''.mp4''"
    by (simp add: endswith_def)
  have five: "\<And>a b c d e. endswith (pre @ [a, b, c, d, e]) ''.mp4'' \<longleftrightarrow> [b, c, d, e] = ''.mp4''"
  proof -
    fix a b c d e
    have "pre @ [a, b, c, d, e] = (pre @ [a]) @ [b, c, d, e]" by simp
    then show "endswith (pre @ [a, b, c, d, e]) ''.mp4'' \<longleftrightarrow> [b, c, d, e] = ''.mp4''"
      by (simp only: endswith_def length_append) simp
  qed
  from assms show ?thesis
    unfolding VIDEO_EXTS_def by (auto simp: four five)
qed

lemma paths_mp4_iff:
  assumes "mark_video_paths env i out w = (Inr outp, w1)"
  shows "endswith (lower (str_path outp)) ''.mp4'' \<longleftrightarrow> lower (suffix outp) = ''.mp4''"
proof -
  have ext: "lower (suffix outp) \<in> VIDEO_EXTS"
    using assms by (rule paths_suffix)
  then have "suffix outp \<noteq> []"
    by (auto simp: VIDEO_EXTS_def lower_def)
  from str_path_suffix [OF this] obtain pre where "str_path outp = pre @ suffix outp"
    by blast
  then have "lower (str_path outp) = lower pre @ lower (suffix outp)"
    by (simp add: lower_append)
  with endswith_mp4_ext [OF ext] show ?thesis by simp
qed

lemma mark_video_four_cmds:
  assumes "mark_video_paths env i out w = (Inr outp, w1)"
    and "length (new_invoked w (snd (mark_video env i out res ov w))) = 4"
  shows "\<exists>ps. mark_video_checks env i res = Inr ps
            \<and> new_invoked w (snd (mark_video env i out res ov w)) = pipeline_cmds env i outp ov ps"
proof -
  define cs where "cs = new_invoked w (snd (mark_video env i out res ov w))"
  have len: "length cs = 4"
    using assms(2) by (simp add: cs_def)
  then have "cs \<noteq> []" by auto
  with mark_video_invoked_cases [of w env i out res ov, folded cs_def]
  obtain outp' w1' ps k where *: "mark_video_paths env i out w = (Inr outp', w1')"
      "mark_video_checks env i res = Inr ps" "k \<le> 4" "cs = take k (pipeline_cmds env i outp' ov ps)"
    by blast
  from *(1) assms(1) have same: "outp' = outp" by simp
  from len *(3,4) have "k = 4"
    by (simp add: length_pipeline_cmds)
  with *(4) same have "cs = pipeline_cmds env i outp ov ps"
    by (simp add: length_pipeline_cmds)
  with *(2) show ?thesis
    unfolding cs_def by blast
qed

text \<open>
  C3. Whenever a call builds the concatenation command (the fourth command), that command
  is the stream copy of the two segments, followed by the audio bitstream filter
  \<^verbatim>\<open>-bsf:a aac_adtstoasc\<close> if and only if the extension of the output path is, in lower
  case, \<open>''.mp4''\<close>, followed by the output path. The probe does not occur in the
  condition: the filter is added whether or not the source has an audio stream.
\<close>

theorem audio_filter_iff_mp4:
  assumes "mark_video_paths env i out w = (Inr outp, w1)"
    and "length (new_invoked w (snd (mark_video env i out res ov w))) = 4"
  shows "new_invoked w (snd (mark_video env i out res ov w)) ! 3 =
           [''ffmpeg'', ''-y'', ''-i'', ''concat:'' @ marker_ts_path env @ ''|'' @ main_ts_path env,
            ''-c'', ''copy'']
           @ (if lower (suffix outp) = ''.mp4'' then [''-bsf:a'', ''aac_adtstoasc''] else [])
           @ [str_path outp]"
proof -
  from mark_video_four_cmds [OF assms] obtain ps where
    all: "new_invoked w (snd (mark_video env i out res ov w)) = pipeline_cmds env i outp ov ps"
    by blast
  show ?thesis
    unfolding all
    by (cases ps) (simp add: pipeline_cmds_def final_cmd_def paths_mp4_iff [OF assms(1)])
qed

lemma demo_paths_mkv:
  "fst (mark_video_paths (demo_env ss rc) ''/v/clip.mp4'' (Some ''/v/out.mkv'') demo_world) =
     Inr (PurePath ''/'' [''v'', ''out.mkv''])"
  by code_simp

lemma demo_invoked_mkv:
  "new_invoked demo_world
     (snd (mark_video (demo_env [video_stream_of ''h264'' 1280 720 (Some ''25/1'')] (\<lambda>c. 0))
              ''/v/clip.mp4'' (Some ''/v/out.mkv'') None None demo_world)) =
   [cmd_marker ''color=c=black:s=1280x720:text=Filename: clip.mp4'' ''libx264'' ''25''
        ''/tmp/marker_0f.mp4'',
    remux_cmd ''h264_mp4toannexb'' ''/tmp/marker_0f.mp4'' ''/tmp/marker_0f.ts'',
    remux_cmd ''h264_mp4toannexb'' ''/v/clip.mp4'' ''/tmp/main_0f.ts'',
    [''ffmpeg'', ''-y'', ''-i'', ''concat:/tmp/marker_0f.ts|/tmp/main_0f.ts'', ''-c'', ''copy'',
     ''/v/out.mkv'']]"
  by code_simp

text \<open>
  The same video-only source: the filter is added for the default output
  \<open>''/v/clip_marked.mp4''\<close> and left out for \<open>''/v/out.mkv''\<close>.
\<close>

theorem audio_filter_iff_mp4_witness:
  "new_invoked demo_world
     (snd (mark_video (demo_env [video_stream_of ''h264'' 1280 720 (Some ''25/1'')] (\<lambda>c. 0))
              ''/v/clip.mp4'' None None None demo_world)) ! 3 =
     [''ffmpeg'', ''-y'', ''-i'', ''concat:/tmp/marker_0f.ts|/tmp/main_0f.ts'', ''-c'', ''copy'',
      ''-bsf:a'', ''aac_adtstoasc'', ''/v/clip_marked.mp4'']
   \<and> new_invoked demo_world
     (snd (mark_video (demo_env [video_stream_of ''h264'' 1280 720 (Some ''25/1'')] (\<lambda>c. 0))
              ''/v/clip.mp4'' (Some ''/v/out.mkv'') None None demo_world)) ! 3 =
     [''ffmpeg'', ''-y'', ''-i'', ''concat:/tmp/marker_0f.ts|/tmp/main_0f.ts'', ''-c'', ''copy'',
      ''/v/out.mkv'']"
proof -
  let ?E = "demo_env [video_stream_of ''h264'' 1280 720 (Some ''25/1'')] (\<lambda>c. 0)"
  let ?a = "mark_video ?E ''/v/clip.mp4'' None None None demo_world"
  let ?b = "mark_video ?E ''/v/clip.mp4'' (Some ''/v/out.mkv'') None None demo_world"
  have pb: "mark_video_paths ?E ''/v/clip.mp4'' (Some ''/v/out.mkv'') demo_world =
     (Inr (PurePath ''/'' [''v'', ''out.mkv'']),
      snd (mark_video_paths ?E ''/v/clip.mp4'' (Some ''/v/out.mkv'') demo_world))"
    using demo_paths_mkv [of "[video_stream_of ''h264'' 1280 720 (Some ''25/1'')]" "\<lambda>c. 0"]
    by (simp add: prod_eq_iff)
  have la: "length (new_invoked demo_world (snd ?a)) = 4"
    by (simp add: demo_invoked)
  have lb: "length (new_invoked demo_world (snd ?b)) = 4"
    by (simp add: demo_invoked_mkv)
  have ts: "marker_ts_path ?E = ''/tmp/marker_0f.ts''" "main_ts_path ?E = ''/tmp/main_0f.ts''"
    by code_simp+
  have sa: "lower (suffix (PurePath ''/'' [''v'', ''clip_marked.mp4''])) = ''.mp4''"
    by code_simp
  have sb: "lower (suffix (PurePath ''/'' [''v'', ''out.mkv''])) = ''.mkv''"
    by code_simp
  have pa: "str_path (PurePath ''/'' [''v'', ''clip_marked.mp4'']) = ''/v/clip_marked.mp4''"
    "str_path (PurePath ''/'' [''v'', ''out.mkv'']) = ''/v/out.mkv''"
    by code_simp+
  from audio_filter_iff_mp4 [OF demo_paths_default_eq la]
  have "new_invoked demo_world (snd ?a) ! 3 =
     [''ffmpeg'', ''-y'', ''-i'', ''concat:/tmp/marker_0f.ts|/tmp/main_0f.ts'', ''-c'', ''copy'',
      ''-bsf:a'', ''aac_adtstoasc'', ''/v/clip_marked.mp4'']"
    by (simp add: ts sa pa)
  moreover from audio_filter_iff_mp4 [OF pb lb]
  have "new_invoked demo_world (snd ?b) ! 3 =
     [''ffmpeg'', ''-y'', ''-i'', ''concat:/tmp/marker_0f.ts|/tmp/main_0f.ts'', ''-c'', ''copy'',
      ''/v/out.mkv'']"
    by (simp add: ts sb pa)
  ultimately show ?thesis by (rule conjI)
qed

section \<open>The temporary files\<close>

lemma cleanup_one_apply:
  "cleanup_one env f (Some q) x =
     (if x = q \<and> q \<noteq> [] \<and> f q = Some File \<and> \<not> remove_denied env q then None else f x)"
  by (auto simp: cleanup_one_def os_path_exists_def os_remove_def split: option.splits node.splits)

lemma cleanup_one_absent: "f q = None \<Longrightarrow> cleanup_one env f (Some q) = f"
  by (simp add: cleanup_one_def os_path_exists_def)

lemma os_path_join_nonempty: "b \<noteq> [] \<Longrightarrow> os_path_join a b \<noteq> []"
  by (simp add: os_path_join_def)

lemma temp_paths_nonempty:
  "marker_container_path env \<noteq> []" "marker_ts_path env \<noteq> []" "main_ts_path env \<noteq> []"
  by (simp_all add: marker_container_path_def marker_ts_path_def main_ts_path_def
      os_path_join_nonempty)

lemma cleanup_one_settles:
  assumes "q \<noteq> []"
  shows "cleanup_one env f (Some q) q = None \<or> cleanup_one env f (Some q) q = Some Dir
         \<or> remove_denied env q"
proof (cases "f q")
  case None
  then show ?thesis by (simp add: cleanup_one_apply)
next
  case (Some n)
  with assms show ?thesis
    by (cases n) (simp_all add: cleanup_one_apply)
qed

lemma cleanup_one_keeps:
  assumes "f p = None \<or> f p = Some Dir \<or> remove_denied env p"
  shows "cleanup_one env f (Some q) p = None \<or> cleanup_one env f (Some q) p = Some Dir
         \<or> remove_denied env p"
  using assms by (simp add: cleanup_one_apply)

lemma cleanup_three:
  assumes "a \<noteq> []" and "b \<noteq> []" and "c \<noteq> []" and "p = a \<or> p = b \<or> p = c"
  shows "cleanup env [Some a, Some b, Some c] f p = None
         \<or> cleanup env [Some a, Some b, Some c] f p = Some Dir
         \<or> remove_denied env p"
proof -
  let ?f1 = "cleanup_one env f (Some a)"
  let ?f2 = "cleanup_one env ?f1 (Some b)"
  let ?f3 = "cleanup_one env ?f2 (Some c)"
  have all: "cleanup env [Some a, Some b, Some c] f = ?f3"
    by (simp add: cleanup_def)
  from assms(4) have "?f3 p = None \<or> ?f3 p = Some Dir \<or> remove_denied env p"
  proof (elim disjE)
    assume "p = a"
    with cleanup_one_settles [OF assms(1), of env f]
    have "?f1 p = None \<or> ?f1 p = Some Dir \<or> remove_denied env p" by simp
    then have "?f2 p = None \<or> ?f2 p = Some Dir \<or> remove_denied env p"
      by (rule cleanup_one_keeps)
    then show ?thesis by (rule cleanup_one_keeps)
  next
    assume "p = b"
    with cleanup_one_settles [OF assms(2), of env ?f1]
    have "?f2 p = None \<or> ?f2 p = Some Dir \<or> remove_denied env p" by simp
    then show ?thesis by (rule cleanup_one_keeps)
  next
    assume "p = c"
    with cleanup_one_settles [OF assms(3), of env ?f2] show ?thesis by simp
  qed
  with all show ?thesis by simp
qed

text \<open>
  C1. For every call that reaches the assignment of the temporary paths (its paths are
  accepted and the validation passes), whatever the processes do and however the call
  ends: after the call each of the three temporary paths is absent, unless its removal
  raised an \<^verbatim>\<open>OSError\<close> (the path is a directory or the removal is denied), which is
  swallowed; the outcome of the call is the outcome of the try statement, whatever the
  removals did; and the removal step leaves the file system as it is when the path is
  already absent.
\<close>

theorem temporary_files_removed:
  assumes "mark_video_paths env i out w = (Inr outp, w1)"
    and "mark_video_checks env i res = Inr ps"
    and "p = marker_container_path env \<or> p = marker_ts_path env \<or> p = main_ts_path env"
  shows "(fs (snd (mark_video env i out res ov w)) p = None
          \<or> fs (snd (mark_video env i out res ov w)) p = Some Dir
          \<or> remove_denied env p)
         \<and> fst (mark_video env i out res ov w) =
             (case fst (mark_video_run env i outp ov ps w1) of
                Inl e \<Rightarrow> Inl (mark_video_except env e)
              | Inr u \<Rightarrow> Inr u)
         \<and> (\<forall>f q. f q = None \<longrightarrow> cleanup_one env f (Some q) = f)"
proof -
  obtain r w2 where run: "mark_video_run env i outp ov ps w1 = (r, w2)"
    by (cases "mark_video_run env i outp ov ps w1")
  note m = mark_video_reached [OF assms(1,2) run]
  have "fs (snd (mark_video env i out res ov w)) p =
          cleanup env [Some (marker_container_path env), Some (marker_ts_path env),
                       Some (main_ts_path env)] (fs w2) p"
    by (simp add: m)
  with cleanup_three [OF temp_paths_nonempty assms(3), where f = "fs w2"]
  have "fs (snd (mark_video env i out res ov w)) p = None
          \<or> fs (snd (mark_video env i out res ov w)) p = Some Dir
          \<or> remove_denied env p"
    by simp
  moreover have "fst (mark_video env i out res ov w) =
             (case fst (mark_video_run env i outp ov ps w1) of
                Inl e \<Rightarrow> Inl (mark_video_except env e)
              | Inr u \<Rightarrow> Inr u)"
    by (simp add: m run)
  ultimately show ?thesis
    by (simp add: cleanup_one_absent)
qed

lemma demo_checks:
  "mark_video_checks (demo_env [video_stream_of ''h264'' 1280 720 (Some ''25/1'')] rc)
     ''/v/clip.mp4'' None = Inr (1280, 720, ''25'', ''h264'')"
  by code_simp

lemma demo_fs_after:
  "fs (snd (mark_video (demo_env [video_stream_of ''h264'' 1280 720 (Some ''25/1'')] (\<lambda>c. 0))
              ''/v/clip.mp4'' None None None demo_world)) ''/tmp/marker_0f.mp4'' \<noteq> Some Dir"
  "fs (snd (mark_video (demo_env [video_stream_of ''h264'' 1280 720 (Some ''25/1'')] (\<lambda>c. 0))
              ''/v/clip.mp4'' None None None demo_world)) ''/tmp/marker_0f.ts'' \<noteq> Some Dir"
  "fs (snd (mark_video (demo_env [video_stream_of ''h264'' 1280 720 (Some ''25/1'')] (\<lambda>c. 0))
              ''/v/clip.mp4'' None None None demo_world)) ''/tmp/main_0f.ts'' \<noteq> Some Dir"
  "fs (snd (mark_video (demo_env [video_stream_of ''h264'' 1280 720 (Some ''25/1'')] (\<lambda>c. 0))
              ''/v/clip.mp4'' None None None demo_world)) ''/v/clip_marked.mp4'' = Some File"
  "fs (snd (mark_video (demo_env [video_stream_of ''h264'' 1280 720 (Some ''25/1'')] fail_remux)
              ''/v/clip.mp4'' None None None demo_world)) ''/tmp/marker_0f.mp4'' \<noteq> Some Dir"
  by code_simp+


lemma demo_not_denied: "\<not> remove_denied (demo_env ss rc) p"
  by (simp add: demo_env_def)

lemma demo_temp_paths:
  "marker_container_path (demo_env ss rc) = ''/tmp/marker_0f.mp4''"
  "marker_ts_path (demo_env ss rc) = ''/tmp/marker_0f.ts''"
  "main_ts_path (demo_env ss rc) = ''/tmp/main_0f.ts''"
  by code_simp+

text \<open>
  A successful run and a run whose second command fails: the temporary files that the
  processes created are gone after the call, and the output file is there.
\<close>

theorem temporary_files_removed_witness:
  "fs (snd (mark_video (demo_env [video_stream_of ''h264'' 1280 720 (Some ''25/1'')] (\<lambda>c. 0))
              ''/v/clip.mp4'' None None None demo_world)) ''/tmp/marker_0f.mp4'' = None
   \<and> fs (snd (mark_video (demo_env [video_stream_of ''h264'' 1280 720 (Some ''25/1'')] (\<lambda>c. 0))
              ''/v/clip.mp4'' None None None demo_world)) ''/tmp/marker_0f.ts'' = None
   \<and> fs (snd (mark_video (demo_env [video_stream_of ''h264'' 1280 720 (Some ''25/1'')] (\<lambda>c. 0))
              ''/v/clip.mp4'' None None None demo_world)) ''/tmp/main_0f.ts'' = None
   \<and> fs (snd (mark_video (demo_env [video_stream_of ''h264'' 1280 720 (Some ''25/1'')] (\<lambda>c. 0))
              ''/v/clip.mp4'' None None None demo_world)) ''/v/clip_marked.mp4'' = Some File
   \<and> fs (snd (mark_video (demo_env [video_stream_of ''h264'' 1280 720 (Some ''25/1'')] fail_remux)
              ''/v/clip.mp4'' None None None demo_world)) ''/tmp/marker_0f.mp4'' = None"
proof -
  let ?ss = "[video_stream_of ''h264'' 1280 720 (Some ''25/1'')]"
  note t = temporary_files_removed [where ov = None, OF demo_paths_default_eq demo_checks,
      THEN conjunct1, unfolded demo_temp_paths]
  from t [of "''/tmp/marker_0f.mp4''" "\<lambda>c. 0"] demo_fs_after(1)
  have a: "fs (snd (mark_video (demo_env ?ss (\<lambda>c. 0))
              ''/v/clip.mp4'' None None None demo_world)) ''/tmp/marker_0f.mp4'' = None"
    by (simp add: demo_not_denied)
  from t [of "''/tmp/marker_0f.ts''" "\<lambda>c. 0"] demo_fs_after(2)
  have b: "fs (snd (mark_video (demo_env ?ss (\<lambda>c. 0))
              ''/v/clip.mp4'' None None None demo_world)) ''/tmp/marker_0f.ts'' = None"
    by (simp add: demo_not_denied)
  from t [of "''/tmp/main_0f.ts''" "\<lambda>c. 0"] demo_fs_after(3)
  have c: "fs (snd (mark_video (demo_env ?ss (\<lambda>c. 0))
              ''/v/clip.mp4'' None None None demo_world)) ''/tmp/main_0f.ts'' = None"
    by (simp add: demo_not_denied)
  from t [of "''/tmp/marker_0f.mp4''" fail_remux] demo_fs_after(5)
  have d: "fs (snd (mark_video (demo_env ?ss fail_remux)
              ''/v/clip.mp4'' None None None demo_world)) ''/tmp/marker_0f.mp4'' = None"
    by (simp add: demo_not_denied)
  from a b c demo_fs_after(4) d show ?thesis by simp
qed

section \<open>Failures of the external processes\<close>

text \<open>
  Every \<^verbatim>\<open>subprocess.run\<close> of \<^verbatim>\<open>mark_video\<close> passes \<^verbatim>\<open>stderr=subprocess.STDOUT\<close>, so the
  standard error is not captured and the \<^verbatim>\<open>CalledProcessError\<close> of a failed process has
  \<^verbatim>\<open>stderr = None\<close>. The handler of line 168 then raises \<^verbatim>\<open>AttributeError\<close>, at each of the
  three stages.
\<close>

lemma subprocess_run_not_captured:
  "subprocess_run env cmd DEVNULL STDOUT w = (Inl (CalledProcessError rc c err), w') \<Longrightarrow> err = None"
  by (auto simp: subprocess_run_def split: proc_result.splits if_splits)

lemma remux_loop_not_captured:
  "remux_loop env b ps w = (Inl (CalledProcessError rc c err), w') \<Longrightarrow> err = None"
proof (induction ps arbitrary: w)
  case Nil
  then show ?case by simp
next
  case (Cons a ps)
  then show ?case
    by (cases a) (auto split: prod.splits sum.splits dest: subprocess_run_not_captured)
qed

lemma mark_video_run_not_captured:
  assumes "mark_video_run env i outp ov ps w = (Inl (CalledProcessError rc c err), w')"
  shows "err = None"
  using assms
  by (cases ps)
    (auto simp: mark_video_run_def Let_def split: prod.splits sum.splits
      dest: subprocess_run_not_captured remux_loop_not_captured)

lemma process_failure_raises_AttributeError:
  assumes "mark_video_paths env i out w = (Inr outp, w1)"
    and "mark_video_checks env i res = Inr ps"
    and "mark_video_run env i outp ov ps w1 = (Inl (CalledProcessError rc c err), w2)"
  shows "fst (mark_video env i out res ov w) =
           Inl (Builtin (AttributeError
             (quote @ ''NoneType'' @ quote @ '' object has no attribute '' @ quote @ ''decode'' @ quote)))"
proof -
  have "err = None"
    using assms(3) by (rule mark_video_run_not_captured)
  with mark_video_reached [OF assms] show ?thesis
    by (simp add: mark_video_except_def)
qed

text \<open>
  C2 fails on the code. A process that exits with a non-zero return code, at the
  synthesis, at a remux or at the concatenation, makes the call raise
  \<^verbatim>\<open>AttributeError\<close>, not \<^verbatim>\<open>FFmpegProcessError\<close>.
\<close>

theorem process_failure_not_wrapped:
  "fst (mark_video (demo_env [video_stream_of ''h264'' 1280 720 (Some ''25/1'')] (\<lambda>c. 1))
          ''/v/clip.mp4'' None None None demo_world) =
     Inl (Builtin (AttributeError
       (quote @ ''NoneType'' @ quote @ '' object has no attribute '' @ quote @ ''decode'' @ quote)))
   \<and> fst (mark_video (demo_env [video_stream_of ''h264'' 1280 720 (Some ''25/1'')] fail_remux)
          ''/v/clip.mp4'' None None None demo_world) =
     Inl (Builtin (AttributeError
       (quote @ ''NoneType'' @ quote @ '' object has no attribute '' @ quote @ ''decode'' @ quote)))
   \<and> fst (mark_video (demo_env [video_stream_of ''h264'' 1280 720 (Some ''25/1'')] fail_concat)
          ''/v/clip.mp4'' None None None demo_world) =
     Inl (Builtin (AttributeError
       (quote @ ''NoneType'' @ quote @ '' object has no attribute '' @ quote @ ''decode'' @ quote)))"
  by (intro conjI; code_simp)

lemma missing_encoder_raises_VideoMarkingError:
  assumes "mark_video_paths env i out w = (Inr outp, w1)"
    and "mark_video_checks env i res = Inr ps"
    and "run_proc env (hd (pipeline_cmds env i outp ov ps)) (fs w1) = NotFound"
  shows "fst (mark_video env i out res ov w) =
           Inl (Marker (VideoMarkingError
             (''An unexpected error occurred during marking: [Errno 2] No such file or directory: ''
              @ quote @ ''ffmpeg'' @ quote)))"
proof -
  obtain wd ht fps vc where ps: "ps = (wd, ht, fps, vc)"
    by (cases ps)
  have "fst (mark_video_run env i outp ov ps w1) =
          Inl (Builtin (FileNotFoundError
            (''[Errno 2] No such file or directory: '' @ quote @ ''ffmpeg'' @ quote)))"
    using assms(3)
    by (simp add: ps mark_video_run_def pipeline_cmds_def subprocess_run_def cmd_marker_def)
  then obtain w2 where "mark_video_run env i outp ov ps w1 =
          (Inl (Builtin (FileNotFoundError
            (''[Errno 2] No such file or directory: '' @ quote @ ''ffmpeg'' @ quote))), w2)"
    by (cases "mark_video_run env i outp ov ps w1") simp
  from mark_video_reached [OF assms(1,2) this] show ?thesis
    by (simp add: mark_video_except_def)
qed

text \<open>
  C5 fails on the code. When the \<^verbatim>\<open>ffmpeg\<close> executable is not found at the synthesis,
  \<^verbatim>\<open>subprocess.run\<close> raises \<^verbatim>\<open>FileNotFoundError\<close>, which the catch-all handler of line 174
  wraps as \<^verbatim>\<open>VideoMarkingError\<close>; no \<^verbatim>\<open>FFmpegNotFoundError\<close> is raised.
\<close>

theorem missing_encoder_not_reported:
  "fst (mark_video (demo_env_no_ffmpeg [video_stream_of ''h264'' 1280 720 (Some ''25/1'')])
          ''/v/clip.mp4'' None None None demo_world) =
     Inl (Marker (VideoMarkingError
       (''An unexpected error occurred during marking: [Errno 2] No such file or directory: ''
        @ quote @ ''ffmpeg'' @ quote)))
   \<and> fst (mark_video (demo_env_no_ffmpeg [video_stream_of ''h264'' 1280 720 (Some ''25/1'')])
          ''/v/clip.mp4'' None None None demo_world) \<noteq> Inl (Marker FFmpegNotFoundError)"
proof -
  have a: "fst (mark_video (demo_env_no_ffmpeg [video_stream_of ''h264'' 1280 720 (Some ''25/1'')])
          ''/v/clip.mp4'' None None None demo_world) =
     Inl (Marker (VideoMarkingError
       (''An unexpected error occurred during marking: [Errno 2] No such file or directory: ''
        @ quote @ ''ffmpeg'' @ quote)))"
    by code_simp
  show ?thesis
    unfolding a by simp
qed

end
